theory Spec2Isabelle
  imports Complex_Main
begin

section \<open>Values of the host language\<close>

text \<open>
  Filters, projections, sort specifications, populate specifications, passthrough
  options, update patches and documents are opaque to the repository: it only tests
  them for truthiness and hands them to the driver. They are modelled as JSON values.
  Page numbers, limits and counts are integral JavaScript numbers, modelled as \<open>int\<close>
  with exact arithmetic. The code computes on doubles: the model agrees with it while
  the values, the product \<open>(page - 1) * limit\<close> and the quotient \<open>total / limit\<close> stay
  in the safe-integer range (below \<open>2^53\<close>); rounding beyond it is outside the model.
\<close>

datatype json =
    JNull
  | JBool bool
  | JNum int
  | JStr string
  | JArr "json list"
  | JObj "(string \<times> json) list"

text \<open>JavaScript truthiness: \<open>null\<close>, \<open>false\<close>, \<open>0\<close> and \<open>''\<close> are falsy, every object is truthy.\<close>

fun truthy :: "json \<Rightarrow> bool" where
  "truthy JNull = False"
| "truthy (JBool b) = b"
| "truthy (JNum n) = (n \<noteq> 0)"
| "truthy (JStr s) = (s \<noteq> [])"
| "truthy (JArr xs) = True"
| "truthy (JObj kvs) = True"

text \<open>\<open>x || d\<close> on an optional value: \<open>undefined\<close> (\<open>None\<close>) and every falsy value give \<open>d\<close>.\<close>

definition or_else :: "json option \<Rightarrow> json \<Rightarrow> json" where
  "or_else x d = (case x of None \<Rightarrow> d | Some v \<Rightarrow> if truthy v then v else d)"

text \<open>\<open>x || d\<close> on an optional number: \<open>undefined\<close> and \<open>0\<close> give \<open>d\<close>.\<close>

definition num_or :: "int option \<Rightarrow> int \<Rightarrow> int" where
  "num_or x d = (case x of None \<Rightarrow> d | Some n \<Rightarrow> if n = 0 then d else n)"

text \<open>
  \<open>x ?? d\<close>, and the default of a destructuring pattern \<open>{ x = d }\<close>: only a missing
  value gives \<open>d\<close>.
\<close>

definition nullish :: "'a option \<Rightarrow> 'a \<Rightarrow> 'a" where
  "nullish x d = (case x of None \<Rightarrow> d | Some v \<Rightarrow> v)"

text \<open>
  The result of a JavaScript division need not be finite: \<open>n / 0\<close> is an infinity or
  \<open>NaN\<close>, and \<open>Math.ceil\<close> and \<open><\<close> propagate these.
\<close>

datatype jsnum = Fin real | PosInfinity | NegInfinity | NaN

definition js_divide :: "int \<Rightarrow> int \<Rightarrow> jsnum" where
  "js_divide a b =
     (if b = 0 then (if a = 0 then NaN else if 0 < a then PosInfinity else NegInfinity)
      else Fin (real_of_int a / real_of_int b))"

fun math_ceil :: "jsnum \<Rightarrow> jsnum" where
  "math_ceil (Fin r) = Fin (of_int \<lceil>r\<rceil>)"
| "math_ceil PosInfinity = PosInfinity"
| "math_ceil NegInfinity = NegInfinity"
| "math_ceil NaN = NaN"

text \<open>\<open>a < b\<close> for an integral \<open>a\<close>.\<close>

fun js_less :: "int \<Rightarrow> jsnum \<Rightarrow> bool" where
  "js_less a (Fin r) = (real_of_int a < r)"
| "js_less a PosInfinity = True"
| "js_less a NegInfinity = False"
| "js_less a NaN = False"

section \<open>Option structures (\<open>query-options.interface.ts\<close>)\<close>

text \<open>A transaction session is a handle owned by the caller.\<close>

type_synonym client_session = nat

record pagination_options =
  pg_page :: "int option"
  pg_limit :: "int option"

record find_options =
  fo_filter :: "json option"
  fo_projection :: "json option"
  fo_sort :: "json option"
  fo_pagination :: "pagination_options option"
  fo_populate :: "json option"
  fo_options :: "json option"
  fo_session :: "client_session option"

record pagination_meta =
  meta_total :: int
  meta_page :: int
  meta_limit :: int
  meta_totalPages :: jsnum
  meta_hasNextPage :: bool
  meta_hasPrevPage :: bool

record paginated_result =
  pr_data :: "json list"
  pr_meta :: pagination_meta

record mutation_options =
  mo_session :: "client_session option"

record update_options =
  uo_session :: "client_session option"
  uo_runValidators :: "bool option"

text \<open>The object \<open>{}\<close> spread from missing options: every field absent.\<close>

definition no_options :: find_options where
  "no_options = \<lparr>fo_filter = None, fo_projection = None, fo_sort = None,
     fo_pagination = None, fo_populate = None, fo_options = None, fo_session = None\<rparr>"

section \<open>The driver's query builder\<close>

text \<open>
  The options object literal handed to the driver's update and delete primitives; a key
  the literal does not write, or writes as \<open>undefined\<close>, is \<open>None\<close>.
\<close>

record query_options =
  opt_new :: "bool option"
  opt_runValidators :: "bool option"
  opt_session :: "client_session option"

datatype query_op =
    FindById string
  | FindOne json
  | Find json
  | CountDocuments json
  | FindByIdAndUpdate string json query_options
  | FindOneAndUpdate json json query_options
  | UpdateMany json json query_options
  | FindByIdAndDelete string query_options
  | FindOneAndDelete json query_options

text \<open>
  The chained builder calls, in the order they were made. \<open>Session None\<close> is
  \<open>.session(null)\<close>.
\<close>

datatype builder_call =
    Select json
  | Sort json
  | Populate json
  | Session "client_session option"
  | SetOptions json
  | Skip int
  | Limit int
  | Lean

record query =
  q_op :: query_op
  q_calls :: "builder_call list"

definition new_query :: "query_op \<Rightarrow> query" where
  "new_query op = \<lparr>q_op = op, q_calls = []\<rparr>"

definition chain :: "query \<Rightarrow> builder_call \<Rightarrow> query" where
  "chain q c = q\<lparr>q_calls := q_calls q @ [c]\<rparr>"

section \<open>The model handle\<close>

text \<open>
  The driver is a parameter of the repository: what \<open>exec()\<close> does with a query, on a
  database state \<open>'w\<close>. A rejected promise is \<open>Inl\<close>. When two operations that run
  together are both rejected, the timing of the driver decides which rejection settles
  first: \<open>second_first e1 e2\<close> says that the rejection \<open>e2\<close> of the operation started
  second arrives before the rejection \<open>e1\<close> of the one started first.
\<close>

datatype driver_error = ValidationError string | DriverError string

type_synonym ('a, 'w) io = "'w \<Rightarrow> (driver_error + 'a) \<times> 'w"

record update_result =
  matchedCount :: int
  modifiedCount :: int

record 'w model =
  exec_doc :: "query \<Rightarrow> (json option, 'w) io"
  exec_docs :: "query \<Rightarrow> (json list, 'w) io"
  exec_count :: "query \<Rightarrow> (int, 'w) io"
  exec_update :: "query \<Rightarrow> (update_result, 'w) io"
  second_first :: "driver_error \<Rightarrow> driver_error \<Rightarrow> bool"

text \<open>\<open>await\<close> followed by a pure computation.\<close>

definition io_map :: "('a \<Rightarrow> 'b) \<Rightarrow> ('a, 'w) io \<Rightarrow> ('b, 'w) io" where
  "io_map f act w =
     (case act w of (Inl e, w') \<Rightarrow> (Inl e, w') | (Inr x, w') \<Rightarrow> (Inr (f x), w'))"

text \<open>
  \<open>Promise.all([a, b])\<close>: both operations are started, \<open>a\<close> first, whatever the other
  one answers; the result is the pair of answers, or the rejection that settles first
  when either is rejected (\<open>sf\<close> decides when both are).
\<close>

definition promise_all ::
  "(driver_error \<Rightarrow> driver_error \<Rightarrow> bool) \<Rightarrow> ('a, 'w) io \<Rightarrow> ('b, 'w) io \<Rightarrow> ('a \<times> 'b, 'w) io" where
  "promise_all sf a b w =
     (case a w of (ra, w1) \<Rightarrow>
        (case b w1 of (rb, w2) \<Rightarrow>
           (case ra of
              Inl e1 \<Rightarrow>
                (case rb of
                   Inl e2 \<Rightarrow> (Inl (if sf e1 e2 then e2 else e1), w2)
                 | Inr y \<Rightarrow> (Inl e1, w2))
            | Inr x \<Rightarrow> (case rb of Inl e2 \<Rightarrow> (Inl e2, w2) | Inr y \<Rightarrow> (Inr (x, y), w2)))))"

section \<open>The repository (\<open>BaseRepositoryService\<close>)\<close>

subsection \<open>Private helpers\<close>

definition applyPopulate :: "query \<Rightarrow> json \<Rightarrow> query" where
  "applyPopulate q populate =
     (case populate of
        JStr s \<Rightarrow> chain q (Populate populate)
      | JArr xs \<Rightarrow> chain q (Populate populate)
      | _ \<Rightarrow> chain q (Populate populate))"

definition applyQueryOptions :: "query \<Rightarrow> find_options option \<Rightarrow> query" where
  "applyQueryOptions query options =
     (case options of
        None \<Rightarrow> query
      | Some opts \<Rightarrow>
          (let q1 = (case fo_projection opts of
                       None \<Rightarrow> query
                     | Some p \<Rightarrow> if truthy p then chain query (Select p) else query);
               q2 = (case fo_sort opts of
                       None \<Rightarrow> q1
                     | Some s \<Rightarrow> if truthy s then chain q1 (Sort s) else q1);
               q3 = (case fo_populate opts of
                       None \<Rightarrow> q2
                     | Some p \<Rightarrow> if truthy p then applyPopulate q2 p else q2);
               q4 = (case fo_session opts of
                       None \<Rightarrow> q3
                     | Some s \<Rightarrow> chain q3 (Session (Some s)));
               q5 = (case fo_options opts of
                       None \<Rightarrow> q4
                     | Some v \<Rightarrow> if truthy v then chain q4 (SetOptions v) else q4)
           in q5))"

subsection \<open>Utility\<close>

definition count :: "'w model \<Rightarrow> json option \<Rightarrow> mutation_options option \<Rightarrow> (int, 'w) io" where
  "count m filter' options =
     exec_count m
       (chain (new_query (CountDocuments (or_else filter' (JObj []))))
          (Session (Option.bind options mo_session)))"

subsection \<open>Read\<close>

definition findById :: "'w model \<Rightarrow> string \<Rightarrow> find_options option \<Rightarrow> (json option, 'w) io" where
  "findById m i options =
     (let query = new_query (FindById i);
          query = applyQueryOptions query options
      in exec_doc m query)"

definition findOne :: "'w model \<Rightarrow> find_options option \<Rightarrow> (json option, 'w) io" where
  "findOne m options =
     (let query = new_query (FindOne (or_else (Option.bind options fo_filter) (JObj [])));
          query = applyQueryOptions query options
      in exec_doc m query)"

definition findMany :: "'w model \<Rightarrow> find_options option \<Rightarrow> (json list, 'w) io" where
  "findMany m options =
     (let query = new_query (Find (or_else (Option.bind options fo_filter) (JObj [])));
          query = applyQueryOptions query options;
          query = (case Option.bind options fo_pagination of
                     None \<Rightarrow> query
                   | Some pg \<Rightarrow>
                       (let page = nullish (pg_page pg) 1;
                            limit = nullish (pg_limit pg) 10;
                            skip = (page - 1) * limit
                        in chain (chain query (Skip skip)) (Limit limit)))
      in exec_docs m query)"

definition findWithPagination :: "'w model \<Rightarrow> find_options option \<Rightarrow> (paginated_result, 'w) io" where
  "findWithPagination m options =
     (let filter' = or_else (Option.bind options fo_filter) (JObj []);
          page = num_or (Option.bind (Option.bind options fo_pagination) pg_page) 1;
          limit = num_or (Option.bind (Option.bind options fo_pagination) pg_limit) 10
      in io_map
           (\<lambda>(data, total_n).
              (let totalPages = math_ceil (js_divide total_n limit)
               in \<lparr>pr_data = data,
                   pr_meta = \<lparr>meta_total = total_n, meta_page = page, meta_limit = limit,
                     meta_totalPages = totalPages,
                     meta_hasNextPage = js_less page totalPages,
                     meta_hasPrevPage = (1 < page)\<rparr>\<rparr>))
           (promise_all (second_first m)
              (findMany m
                 (Some ((nullish options no_options)
                    \<lparr>fo_pagination := Some \<lparr>pg_page = Some page, pg_limit = Some limit\<rparr>\<rparr>)))
              (count m (Some filter')
                 (Some \<lparr>mo_session = Option.bind options fo_session\<rparr>))))"

subsection \<open>Read lean\<close>



definition findManyLean :: "'w model \<Rightarrow> find_options option \<Rightarrow> (json list, 'w) io" where
  "findManyLean m options =
     (let query = new_query (Find (or_else (Option.bind options fo_filter) (JObj [])));
          query = applyQueryOptions query options;
          query = (case Option.bind options fo_pagination of
                     None \<Rightarrow> query
                   | Some pg \<Rightarrow>
                       (let page = nullish (pg_page pg) 1;
                            limit = nullish (pg_limit pg) 10;
                            skip = (page - 1) * limit
                        in chain (chain query (Skip skip)) (Limit limit)))
      in exec_docs m (chain query Lean))"

definition findWithPaginationLean :: "'w model \<Rightarrow> find_options option \<Rightarrow> (paginated_result, 'w) io" where
  "findWithPaginationLean m options =
     (let filter' = or_else (Option.bind options fo_filter) (JObj []);
          page = num_or (Option.bind (Option.bind options fo_pagination) pg_page) 1;
          limit = num_or (Option.bind (Option.bind options fo_pagination) pg_limit) 10
      in io_map
           (\<lambda>(data, total_n).
              (let totalPages = math_ceil (js_divide total_n limit)
               in \<lparr>pr_data = data,
                   pr_meta = \<lparr>meta_total = total_n, meta_page = page, meta_limit = limit,
                     meta_totalPages = totalPages,
                     meta_hasNextPage = js_less page totalPages,
                     meta_hasPrevPage = (1 < page)\<rparr>\<rparr>))
           (promise_all (second_first m)
              (findManyLean m
                 (Some ((nullish options no_options)
                    \<lparr>fo_pagination := Some \<lparr>pg_page = Some page, pg_limit = Some limit\<rparr>\<rparr>)))
              (count m (Some filter')
                 (Some \<lparr>mo_session = Option.bind options fo_session\<rparr>))))"

subsection \<open>Update\<close>

definition updateById ::
  "'w model \<Rightarrow> string \<Rightarrow> json \<Rightarrow> update_options option \<Rightarrow> (json option, 'w) io" where
  "updateById m i update options =
     exec_doc m
       (new_query (FindByIdAndUpdate i update
          \<lparr>opt_new = Some True,
           opt_runValidators = Some (nullish (Option.bind options uo_runValidators) True),
           opt_session = Option.bind options uo_session\<rparr>))"

definition updateOne ::
  "'w model \<Rightarrow> json \<Rightarrow> json \<Rightarrow> update_options option \<Rightarrow> (json option, 'w) io" where
  "updateOne m filter' update options =
     exec_doc m
       (new_query (FindOneAndUpdate filter' update
          \<lparr>opt_new = Some True,
           opt_runValidators = Some (nullish (Option.bind options uo_runValidators) True),
           opt_session = Option.bind options uo_session\<rparr>))"

definition updateMany ::
  "'w model \<Rightarrow> json \<Rightarrow> json \<Rightarrow> update_options option \<Rightarrow> (int, 'w) io" where
  "updateMany m filter' update options =
     io_map modifiedCount
       (exec_update m
          (new_query (UpdateMany filter' update
             \<lparr>opt_new = None,
              opt_runValidators = Some (nullish (Option.bind options uo_runValidators) True),
              opt_session = Option.bind options uo_session\<rparr>)))"

subsection \<open>Delete\<close>

definition deleteById :: "'w model \<Rightarrow> string \<Rightarrow> mutation_options option \<Rightarrow> (json option, 'w) io" where
  "deleteById m i options =
     exec_doc m
       (new_query (FindByIdAndDelete i
          \<lparr>opt_new = None, opt_runValidators = None,
           opt_session = Option.bind options mo_session\<rparr>))"

definition deleteOne :: "'w model \<Rightarrow> json \<Rightarrow> mutation_options option \<Rightarrow> (json option, 'w) io" where
  "deleteOne m filter' options =
     exec_doc m
       (new_query (FindOneAndDelete filter'
          \<lparr>opt_new = None, opt_runValidators = None,
           opt_session = Option.bind options mo_session\<rparr>))"


section \<open>Observing the calls a repository method issues\<close>

text \<open>
  \<open>traced m\<close> is the driver \<open>m\<close> with a log: it answers as \<open>m\<close> does and appends each
  executed query to the log kept beside the database state. \<open>calls_of\<close> reads the log
  of a method run from an empty one.
\<close>

definition traced :: "'w model \<Rightarrow> ('w \<times> query list) model" where
  "traced m =
     \<lparr>exec_doc = (\<lambda>q (w, tr). case exec_doc m q w of (r, w') \<Rightarrow> (r, (w', tr @ [q]))),
      exec_docs = (\<lambda>q (w, tr). case exec_docs m q w of (r, w') \<Rightarrow> (r, (w', tr @ [q]))),
      exec_count = (\<lambda>q (w, tr). case exec_count m q w of (r, w') \<Rightarrow> (r, (w', tr @ [q]))),
      exec_update = (\<lambda>q (w, tr). case exec_update m q w of (r, w') \<Rightarrow> (r, (w', tr @ [q]))),
      second_first = second_first m\<rparr>"

definition calls_of :: "('a, 'w \<times> query list) io \<Rightarrow> 'w \<Rightarrow> query list" where
  "calls_of act w = snd (snd (act (w, [])))"

text \<open>
  Shorthand for the locals of \<open>findWithPagination\<close> (\<open>filter\<close>, \<open>page\<close>, \<open>limit\<close>) and
  for the queries it builds: the find query after \<open>applyQueryOptions\<close>, the same with
  the skip and limit of the effective page, and the count query.
\<close>

abbreviation effective_filter :: "find_options option \<Rightarrow> json" where
  "effective_filter options \<equiv> or_else (Option.bind options fo_filter) (JObj [])"

abbreviation effective_page :: "find_options option \<Rightarrow> int" where
  "effective_page options \<equiv> num_or (Option.bind (Option.bind options fo_pagination) pg_page) 1"

abbreviation effective_limit :: "find_options option \<Rightarrow> int" where
  "effective_limit options \<equiv> num_or (Option.bind (Option.bind options fo_pagination) pg_limit) 10"

abbreviation base_find :: "find_options option \<Rightarrow> query" where
  "base_find options \<equiv> applyQueryOptions (new_query (Find (effective_filter options))) options"

abbreviation page_query :: "find_options option \<Rightarrow> query" where
  "page_query options \<equiv>
     chain (chain (base_find options)
       (Skip ((effective_page options - 1) * effective_limit options)))
       (Limit (effective_limit options))"

abbreviation count_query :: "find_options option \<Rightarrow> query" where
  "count_query options \<equiv>
     chain (new_query (CountDocuments (effective_filter options)))
       (Session (Option.bind options fo_session))"

text \<open>The value both paginated methods return for the fetched data and the counted total.\<close>

abbreviation page_result :: "find_options option \<Rightarrow> json list \<Rightarrow> int \<Rightarrow> paginated_result" where
  "page_result options data total_n \<equiv>
     \<lparr>pr_data = data,
      pr_meta = \<lparr>meta_total = total_n, meta_page = effective_page options,
        meta_limit = effective_limit options,
        meta_totalPages = math_ceil (js_divide total_n (effective_limit options)),
        meta_hasNextPage = js_less (effective_page options)
          (math_ceil (js_divide total_n (effective_limit options))),
        meta_hasPrevPage = (1 < effective_page options)\<rparr>\<rparr>"

text \<open>The call one option contributes, and the sessions bound to a query.\<close>

definition applied :: "(json \<Rightarrow> builder_call) \<Rightarrow> json option \<Rightarrow> builder_call list" where
  "applied c x = (case x of None \<Rightarrow> [] | Some v \<Rightarrow> if truthy v then [c v] else [])"

definition sessions_of :: "query \<Rightarrow> client_session option list" where
  "sessions_of q = List.map_filter (\<lambda>c. case c of Session s \<Rightarrow> Some s | _ \<Rightarrow> None) (q_calls q)"

section \<open>Test doubles for the driver\<close>

text \<open>A driver with canned answers, which keeps no state.\<close>

definition stub_model :: "json list \<Rightarrow> int \<Rightarrow> unit model" where
  "stub_model ds n =
     \<lparr>exec_doc = (\<lambda>q w. (Inr (case ds of [] \<Rightarrow> None | d # rest \<Rightarrow> Some d), w)),
      exec_docs = (\<lambda>q w. (Inr ds, w)),
      exec_count = (\<lambda>q w. (Inr n, w)),
      exec_update = (\<lambda>q w. (Inr \<lparr>matchedCount = n, modifiedCount = n\<rparr>, w)),
      second_first = (\<lambda>e1 e2. False)\<rparr>"

text \<open>What a query is aimed at: one id, or the entities a filter matches.\<close>

datatype target = ById string | ByFilter json

fun target_of :: "query_op \<Rightarrow> target" where
  "target_of (FindById i) = ById i"
| "target_of (FindOne f) = ByFilter f"
| "target_of (Find f) = ByFilter f"
| "target_of (CountDocuments f) = ByFilter f"
| "target_of (FindByIdAndUpdate i u opts) = ById i"
| "target_of (FindOneAndUpdate f u opts) = ByFilter f"
| "target_of (UpdateMany f u opts) = ByFilter f"
| "target_of (FindByIdAndDelete i opts) = ById i"
| "target_of (FindOneAndDelete f opts) = ByFilter f"

text \<open>Whether a query asks the driver for the document as it is after the update.\<close>

fun requests_updated :: "query_op \<Rightarrow> bool" where
  "requests_updated (FindByIdAndUpdate i u opts) = (opt_new opts = Some True)"
| "requests_updated (FindOneAndUpdate f u opts) = (opt_new opts = Some True)"
| "requests_updated op = False"

text \<open>
  An in-memory driver: the collection is a list of (id, document) pairs, a filter is an
  object whose fields a matching document must carry, an update sets the fields it
  names, and a validator may reject the updated document. A find skips and limits as
  the calls say (limit 0 is no limit) and rejects a negative skip; projection, sort and
  populate are not interpreted.
\<close>

type_synonym mem_db = "(string \<times> json) list"

fun field_of :: "json \<Rightarrow> string \<Rightarrow> json option" where
  "field_of (JObj kvs) k = map_of kvs k"
| "field_of d k = None"

definition matches :: "json \<Rightarrow> json \<Rightarrow> bool" where
  "matches f d =
     (case f of JObj kvs \<Rightarrow> list_all (\<lambda>kv. field_of d (fst kv) = Some (snd kv)) kvs | _ \<Rightarrow> False)"

definition hits :: "target \<Rightarrow> string \<times> json \<Rightarrow> bool" where
  "hits t e = (case t of ById i \<Rightarrow> fst e = i | ByFilter f \<Rightarrow> matches f (snd e))"

definition patch :: "json \<Rightarrow> json \<Rightarrow> json" where
  "patch u d =
     (case u of
        JObj us \<Rightarrow>
          (case d of
             JObj ds \<Rightarrow> JObj (filter (\<lambda>kv. fst kv \<notin> set (map fst us)) ds @ us)
           | _ \<Rightarrow> d)
      | _ \<Rightarrow> d)"

definition mem_update ::
  "(json \<Rightarrow> bool) \<Rightarrow> json \<Rightarrow> query_options \<Rightarrow> string \<times> json \<Rightarrow> (json option, mem_db) io" where
  "mem_update valid u opts e db =
     (let d' = patch u (snd e)
      in if opt_runValidators opts = Some True \<and> \<not> valid d'
         then (Inl (ValidationError ''rejected''), db)
         else (Inr (Some (if opt_new opts = Some True then d' else snd e)),
               map (\<lambda>x. if fst x = fst e then (fst x, d') else x) db))"

definition mem_exec_doc :: "(json \<Rightarrow> bool) \<Rightarrow> query \<Rightarrow> (json option, mem_db) io" where
  "mem_exec_doc valid q db =
     (case List.find (hits (target_of (q_op q))) db of
        None \<Rightarrow> (Inr None, db)
      | Some e \<Rightarrow>
          (case q_op q of
             FindByIdAndUpdate i u opts \<Rightarrow> mem_update valid u opts e db
           | FindOneAndUpdate f u opts \<Rightarrow> mem_update valid u opts e db
           | FindByIdAndDelete i opts \<Rightarrow> (Inr (Some (snd e)), filter (\<lambda>x. fst x \<noteq> fst e) db)
           | FindOneAndDelete f opts \<Rightarrow> (Inr (Some (snd e)), filter (\<lambda>x. fst x \<noteq> fst e) db)
           | _ \<Rightarrow> (Inr (Some (snd e)), db)))"

fun window :: "builder_call list \<Rightarrow> json list \<Rightarrow> json list" where
  "window [] ds = ds"
| "window (Skip n # cs) ds = window cs (drop (nat n) ds)"
| "window (Limit n # cs) ds = window cs (if n = 0 then ds else take (nat \<bar>n\<bar>) ds)"
| "window (c # cs) ds = window cs ds"

definition mem_exec_docs :: "query \<Rightarrow> (json list, mem_db) io" where
  "mem_exec_docs q db =
     (if list_ex (\<lambda>c. case c of Skip n \<Rightarrow> n < 0 | _ \<Rightarrow> False) (q_calls q)
      then (Inl (DriverError ''negative skip''), db)
      else (Inr (window (q_calls q) (map snd (filter (hits (target_of (q_op q))) db))), db))"

definition mem_exec_count :: "query \<Rightarrow> (int, mem_db) io" where
  "mem_exec_count q db = (Inr (int (length (filter (hits (target_of (q_op q))) db))), db)"

definition mem_exec_update :: "(json \<Rightarrow> bool) \<Rightarrow> query \<Rightarrow> (update_result, mem_db) io" where
  "mem_exec_update valid q db =
     (case q_op q of
        UpdateMany f u opts \<Rightarrow>
          (if opt_runValidators opts = Some True \<and>
              list_ex (\<lambda>e. matches f (snd e) \<and> \<not> valid (patch u (snd e))) db
           then (Inl (ValidationError ''rejected''), db)
           else (Inr \<lparr>matchedCount = int (length (filter (\<lambda>e. matches f (snd e)) db)),
                      modifiedCount = int (length (filter (\<lambda>e. matches f (snd e) \<and>
                        patch u (snd e) \<noteq> snd e) db))\<rparr>,
                 map (\<lambda>x. if matches f (snd x) then (fst x, patch u (snd x)) else x) db))
      | _ \<Rightarrow> (Inl (DriverError ''not an update''), db))"

definition mem_model :: "(json \<Rightarrow> bool) \<Rightarrow> mem_db model" where
  "mem_model valid =
     \<lparr>exec_doc = mem_exec_doc valid, exec_docs = mem_exec_docs,
      exec_count = mem_exec_count, exec_update = mem_exec_update valid,
      second_first = (\<lambda>e1 e2. False)\<rparr>"

text \<open>A collection of two users, and a validator that wants a non-empty name.\<close>

definition users :: mem_db where
  "users = [(''u1'', JObj [(''name'', JStr ''A''), (''age'', JNum 30)]),
            (''u2'', JObj [(''name'', JStr ''C''), (''age'', JNum 41)])]"

definition name_given :: "json \<Rightarrow> bool" where
  "name_given d = (case field_of d ''name'' of Some (JStr s) \<Rightarrow> s \<noteq> [] | _ \<Rightarrow> False)"

text \<open>
  A driver that types ids, as a schema with object ids does: a query by an id that is
  not 24 hexadecimal digits is rejected with a cast error before any lookup. Otherwise
  it is the in-memory driver.
\<close>

definition castable :: "string \<Rightarrow> bool" where
  "castable i = (length i = 24 \<and> list_all (\<lambda>c. c \<in> set ''0123456789abcdefABCDEF'') i)"

definition casting_model :: "(json \<Rightarrow> bool) \<Rightarrow> mem_db model" where
  "casting_model valid =
     (mem_model valid)
       \<lparr>exec_doc := (\<lambda>q db.
          case target_of (q_op q) of
            ById i \<Rightarrow>
              if castable i then mem_exec_doc valid q db
              else (Inl (DriverError ''CastError''), db)
          | ByFilter f \<Rightarrow> mem_exec_doc valid q db)\<rparr>"

section \<open>Auxiliary facts\<close>

lemma io_map_Inr:
  "io_map f act w = (Inr y, w') \<longleftrightarrow> (\<exists>x. act w = (Inr x, w') \<and> y = f x)"
  by (auto simp: io_map_def split: prod.splits sum.splits)

lemma promise_all_Inr:
  "promise_all sf a b w = (Inr p, w') \<longleftrightarrow>
     (\<exists>w1. a w = (Inr (fst p), w1) \<and> b w1 = (Inr (snd p), w'))"
  by (cases p) (auto simp: promise_all_def split: prod.splits sum.splits)

lemma calls_io_map: "calls_of (io_map f act) w = calls_of act w"
  by (simp add: calls_of_def io_map_def split: prod.splits sum.splits)

lemma ceil_divide:
  "limit \<noteq> 0 \<Longrightarrow>
   math_ceil (js_divide t limit) = Fin (of_int \<lceil>real_of_int t / real_of_int limit\<rceil>)"
  by (simp add: js_divide_def)

lemma js_less_ceil: "js_less p (Fin (of_int c)) = (p < c)"
  by simp

lemma num_or_nonzero: "d \<noteq> 0 \<Longrightarrow> num_or x d \<noteq> 0"
  by (simp add: num_or_def split: option.splits)

lemma findWithPagination_Inr:
  "findWithPagination m options w = (Inr r, w') \<longleftrightarrow>
     (\<exists>data total_n w1.
        findMany m
          (Some ((nullish options no_options)
             \<lparr>fo_pagination := Some
                \<lparr>pg_page = Some (num_or (Option.bind (Option.bind options fo_pagination) pg_page) 1),
                 pg_limit = Some (num_or (Option.bind (Option.bind options fo_pagination) pg_limit) 10)\<rparr>\<rparr>)) w
          = (Inr data, w1) \<and>
        count m (Some (or_else (Option.bind options fo_filter) (JObj [])))
          (Some \<lparr>mo_session = Option.bind options fo_session\<rparr>) w1 = (Inr total_n, w') \<and>
        r = \<lparr>pr_data = data,
             pr_meta = \<lparr>meta_total = total_n,
               meta_page = num_or (Option.bind (Option.bind options fo_pagination) pg_page) 1,
               meta_limit = num_or (Option.bind (Option.bind options fo_pagination) pg_limit) 10,
               meta_totalPages = math_ceil (js_divide total_n
                 (num_or (Option.bind (Option.bind options fo_pagination) pg_limit) 10)),
               meta_hasNextPage = js_less (num_or (Option.bind (Option.bind options fo_pagination) pg_page) 1)
                 (math_ceil (js_divide total_n
                   (num_or (Option.bind (Option.bind options fo_pagination) pg_limit) 10))),
               meta_hasPrevPage = (1 < num_or (Option.bind (Option.bind options fo_pagination) pg_page) 1)\<rparr>\<rparr>)"
  unfolding findWithPagination_def Let_def io_map_Inr promise_all_Inr
  by (auto simp: split_def)

lemma findWithPaginationLean_Inr:
  "findWithPaginationLean m options w = (Inr r, w') \<longleftrightarrow>
     (\<exists>data total_n w1.
        findManyLean m
          (Some ((nullish options no_options)
             \<lparr>fo_pagination := Some
                \<lparr>pg_page = Some (num_or (Option.bind (Option.bind options fo_pagination) pg_page) 1),
                 pg_limit = Some (num_or (Option.bind (Option.bind options fo_pagination) pg_limit) 10)\<rparr>\<rparr>)) w
          = (Inr data, w1) \<and>
        count m (Some (or_else (Option.bind options fo_filter) (JObj [])))
          (Some \<lparr>mo_session = Option.bind options fo_session\<rparr>) w1 = (Inr total_n, w') \<and>
        r = \<lparr>pr_data = data,
             pr_meta = \<lparr>meta_total = total_n,
               meta_page = num_or (Option.bind (Option.bind options fo_pagination) pg_page) 1,
               meta_limit = num_or (Option.bind (Option.bind options fo_pagination) pg_limit) 10,
               meta_totalPages = math_ceil (js_divide total_n
                 (num_or (Option.bind (Option.bind options fo_pagination) pg_limit) 10)),
               meta_hasNextPage = js_less (num_or (Option.bind (Option.bind options fo_pagination) pg_page) 1)
                 (math_ceil (js_divide total_n
                   (num_or (Option.bind (Option.bind options fo_pagination) pg_limit) 10))),
               meta_hasPrevPage = (1 < num_or (Option.bind (Option.bind options fo_pagination) pg_page) 1)\<rparr>\<rparr>)"
  unfolding findWithPaginationLean_def Let_def io_map_Inr promise_all_Inr
  by (auto simp: split_def)

lemma applyPopulate_chain: "applyPopulate q p = chain q (Populate p)"
  by (simp add: applyPopulate_def split: json.splits)

lemma applyQueryOptions_calls:
  "q_calls (applyQueryOptions q (Some opts)) =
     q_calls q @ applied Select (fo_projection opts) @ applied Sort (fo_sort opts) @
     applied Populate (fo_populate opts) @
     (case fo_session opts of None \<Rightarrow> [] | Some s \<Rightarrow> [Session (Some s)]) @
     applied SetOptions (fo_options opts)"
  by (simp add: applyQueryOptions_def Let_def applyPopulate_chain chain_def applied_def
      split: option.splits)

lemma applyQueryOptions_op: "q_op (applyQueryOptions q options) = q_op q"
  by (simp add: applyQueryOptions_def Let_def applyPopulate_chain chain_def
      split: option.splits)

lemma applyQueryOptions_spread:
  "applyQueryOptions q (Some ((nullish options no_options)\<lparr>fo_pagination := p\<rparr>)) =
   applyQueryOptions q options"
  by (cases options) (simp_all add: applyQueryOptions_def nullish_def no_options_def)

lemma calls_findMany:
  "calls_of (findMany (traced m) options) w =
     [case Option.bind options fo_pagination of
        None \<Rightarrow> base_find options
      | Some pg \<Rightarrow>
          chain (chain (base_find options)
            (Skip ((nullish (pg_page pg) 1 - 1) * nullish (pg_limit pg) 10)))
            (Limit (nullish (pg_limit pg) 10))]"
  by (simp add: findMany_def calls_of_def traced_def Let_def split: prod.splits option.splits)

lemma calls_findManyLean:
  "calls_of (findManyLean (traced m) options) w =
     [chain (case Option.bind options fo_pagination of
        None \<Rightarrow> base_find options
      | Some pg \<Rightarrow>
          chain (chain (base_find options)
            (Skip ((nullish (pg_page pg) 1 - 1) * nullish (pg_limit pg) 10)))
            (Limit (nullish (pg_limit pg) 10))) Lean]"
  by (simp add: findManyLean_def calls_of_def traced_def Let_def split: prod.splits option.splits)

lemma spread_filter:
  "fo_filter ((nullish options no_options)\<lparr>fo_pagination := p\<rparr>) = Option.bind options fo_filter"
  by (cases options) (simp_all add: nullish_def no_options_def)

lemma nullish_Some: "nullish (Some v) d = v"
  by (simp add: nullish_def)

lemma or_else_idem: "or_else (Some (or_else x (JObj []))) (JObj []) = or_else x (JObj [])"
  by (simp add: or_else_def split: option.splits)

lemma calls_findWithPagination:
  "calls_of (findWithPagination (traced m) options) w = [page_query options, count_query options]"
  by (simp add: findWithPagination_def findMany_def count_def calls_of_def traced_def Let_def
      promise_all_def io_map_def applyQueryOptions_spread spread_filter or_else_idem nullish_Some
      split: prod.splits sum.splits)

lemma calls_findWithPaginationLean:
  "calls_of (findWithPaginationLean (traced m) options) w =
     [chain (page_query options) Lean, count_query options]"
  by (simp add: findWithPaginationLean_def findManyLean_def count_def calls_of_def traced_def Let_def
      promise_all_def io_map_def applyQueryOptions_spread spread_filter or_else_idem nullish_Some
      split: prod.splits sum.splits)

lemma traced_exec_doc: "calls_of (exec_doc (traced m) q) w = [q]"
  by (simp add: calls_of_def traced_def split: prod.splits)


lemma applyQueryOptions_None: "applyQueryOptions q None = q"
  by (simp add: applyQueryOptions_def)

lemma chain_calls: "q_calls (chain q c) = q_calls q @ [c]"
  by (simp add: chain_def)

lemma chain_op: "q_op (chain q c) = q_op q"
  by (simp add: chain_def)

lemma no_window_in_applied:
  "c \<in> set (applied Select x) \<union> set (applied Sort x) \<union> set (applied Populate x) \<union>
     set (applied SetOptions x) \<Longrightarrow> c \<noteq> Skip n \<and> c \<noteq> Limit n"
  by (auto simp: applied_def split: option.splits if_splits)

lemma base_find_no_window:
  "Skip n \<notin> set (q_calls (base_find options)) \<and> Limit n \<notin> set (q_calls (base_find options))"
proof (cases options)
  case None
  then show ?thesis by (simp add: applyQueryOptions_None new_query_def)
next
  case (Some opts)
  then show ?thesis
    by (auto simp: applyQueryOptions_calls new_query_def applied_def split: option.splits if_splits)
qed

lemma sessions_of_chain:
  "sessions_of (chain q c) = sessions_of q @ (case c of Session s \<Rightarrow> [s] | _ \<Rightarrow> [])"
  by (simp add: sessions_of_def chain_def List.map_filter_def split: builder_call.splits)

lemma sessions_of_base_find:
  "sessions_of (base_find options) =
     (case Option.bind options fo_session of None \<Rightarrow> [] | Some s \<Rightarrow> [Some s])"
proof (cases options)
  case None
  then show ?thesis
    by (simp add: applyQueryOptions_None sessions_of_def new_query_def List.map_filter_def)
next
  case (Some opts)
  then show ?thesis
    by (simp add: sessions_of_def applyQueryOptions_calls new_query_def applied_def
        List.map_filter_def split: option.splits)
qed





lemma traced_exec_update: "calls_of (io_map f (exec_update (traced m) q)) w = [q]"
  by (simp add: calls_io_map) (simp add: calls_of_def traced_def split: prod.splits)

lemma find_hit: "List.find P xs = Some e \<Longrightarrow> e \<in> set xs"
  by (auto simp: find_Some_iff)

lemma mem_returns_updated:
  assumes "requests_updated (q_op q)"
    and "exec_doc (mem_model valid) q db = (Inr (Some r), db')"
  shows "r \<in> snd ` set db'"
proof -
  from assms(1) obtain u opts where new: "opt_new opts = Some True"
    and op: "(\<exists>i. q_op q = FindByIdAndUpdate i u opts) \<or> (\<exists>f. q_op q = FindOneAndUpdate f u opts)"
    by (cases "q_op q") auto
  from assms(2) obtain e where e: "List.find (hits (target_of (q_op q))) db = Some e"
    by (cases "List.find (hits (target_of (q_op q))) db")
      (auto simp: mem_model_def mem_exec_doc_def)
  with assms(2) op have upd: "mem_update valid u opts e db = (Inr (Some r), db')"
    by (auto simp: mem_model_def mem_exec_doc_def)
  from e have "e \<in> set db" by (rule find_hit)
  then have mem: "(fst e, patch u (snd e)) \<in>
      set (map (\<lambda>x. if fst x = fst e then (fst x, patch u (snd e)) else x) db)"
    by force
  from upd new have r: "r = patch u (snd e)"
    and db': "db' = map (\<lambda>x. if fst x = fst e then (fst x, patch u (snd e)) else x) db"
    by (auto simp: mem_update_def Let_def split: if_splits)
  from mem have "snd (fst e, patch u (snd e)) \<in> snd ` set db'"
    unfolding db' by (rule imageI)
  then show ?thesis by (simp add: r)
qed

lemma mem_absent_null:
  assumes "\<not> list_ex (hits (target_of (q_op q))) db"
  shows "fst (exec_doc (mem_model valid) q db) = Inr None"
proof -
  from assms have "List.find (hits (target_of (q_op q))) db = None"
    by (simp add: find_None_iff list_ex_iff)
  then show ?thesis
    by (simp add: mem_model_def mem_exec_doc_def)
qed

lemma findMany_spread:
  "findMany m
     (Some ((nullish options no_options)
        \<lparr>fo_pagination := Some \<lparr>pg_page = Some (effective_page options),
                                pg_limit = Some (effective_limit options)\<rparr>\<rparr>)) =
   exec_docs m (page_query options)"
  by (simp add: findMany_def Let_def applyQueryOptions_spread spread_filter nullish_Some)

lemma findManyLean_spread:
  "findManyLean m
     (Some ((nullish options no_options)
        \<lparr>fo_pagination := Some \<lparr>pg_page = Some (effective_page options),
                                pg_limit = Some (effective_limit options)\<rparr>\<rparr>)) =
   exec_docs m (chain (page_query options) Lean)"
  by (simp add: findManyLean_def Let_def applyQueryOptions_spread spread_filter nullish_Some)

lemma count_effective:
  "count m (Some (effective_filter options)) (Some \<lparr>mo_session = Option.bind options fo_session\<rparr>) =
   exec_count m (count_query options)"
  by (simp add: count_def or_else_idem)

lemma findWithPagination_exec:
  "findWithPagination m options =
     io_map (\<lambda>(data, total_n). page_result options data total_n)
       (promise_all (second_first m) (exec_docs m (page_query options))
          (exec_count m (count_query options)))"
  unfolding findWithPagination_def Let_def findMany_spread count_effective ..

lemma findWithPaginationLean_exec:
  "findWithPaginationLean m options =
     io_map (\<lambda>(data, total_n). page_result options data total_n)
       (promise_all (second_first m) (exec_docs m (chain (page_query options) Lean))
          (exec_count m (count_query options)))"
  unfolding findWithPaginationLean_def Let_def findManyLean_spread count_effective ..

lemma io_map_promise_all_Inr:
  "io_map (\<lambda>(x, y). f x y) (promise_all sf a b) w = (Inr r, w') \<longleftrightarrow>
     (\<exists>x y w1. a w = (Inr x, w1) \<and> b w1 = (Inr y, w') \<and> r = f x y)"
  unfolding io_map_Inr promise_all_Inr by auto

lemma page_result_meta:
  "pr_meta (page_result options data total_n) =
     \<lparr>meta_total = total_n, meta_page = effective_page options,
      meta_limit = effective_limit options,
      meta_totalPages = Fin (of_int
        \<lceil>real_of_int total_n / real_of_int (effective_limit options)\<rceil>),
      meta_hasNextPage = (effective_page options <
        \<lceil>real_of_int total_n / real_of_int (effective_limit options)\<rceil>),
      meta_hasPrevPage = (1 < effective_page options)\<rparr>"
proof -
  define limit where "limit = effective_limit options"
  have nz: "limit \<noteq> 0"
    unfolding limit_def by (rule num_or_nonzero) simp
  have tp: "math_ceil (js_divide total_n limit) =
      Fin (of_int \<lceil>real_of_int total_n / real_of_int limit\<rceil>)"
    using nz by (rule ceil_divide)
  show ?thesis
    unfolding limit_def [symmetric] tp js_less_ceil by simp
qed

lemma mem_answers_updated:
  assumes "requests_updated (q_op q)"
    and "list_ex (hits (target_of (q_op q))) db"
    and "exec_doc (mem_model valid) q db = (Inr res, db')"
  shows "\<exists>r0. res = Some r0 \<and> r0 \<in> snd ` set db'"
proof -
  from assms(1) obtain u opts
    where op: "(\<exists>i. q_op q = FindByIdAndUpdate i u opts) \<or> (\<exists>f. q_op q = FindOneAndUpdate f u opts)"
    by (cases "q_op q") auto
  from assms(2) obtain e where e: "List.find (hits (target_of (q_op q))) db = Some e"
    by (cases "List.find (hits (target_of (q_op q))) db")
      (auto simp: find_None_iff list_ex_iff)
  with assms(3) op have "mem_update valid u opts e db = (Inr res, db')"
    by (auto simp: mem_model_def mem_exec_doc_def)
  then obtain r0 where r0: "res = Some r0"
    by (auto simp: mem_update_def Let_def split: if_splits)
  with assms(1,3) have "r0 \<in> snd ` set db'"
    by (auto intro: mem_returns_updated)
  with r0 show ?thesis by blast
qed

section \<open>Pagination metadata\<close>

text \<open>
  Claim C1. Take options whose effective page and limit are at least 1 and a total that
  is not negative. Whenever the driver answers the page query with data and the count
  query with that total, \<open>findWithPagination\<close> returns the data with the metadata
  \<open>total\<close>, the effective page and limit, \<open>totalPages = ceil(total / limit)\<close>,
  \<open>hasNextPage\<close> iff \<open>page < totalPages\<close> and \<open>hasPrevPage\<close> iff \<open>page > 1\<close>;
  \<open>findWithPaginationLean\<close> does the same for the lean page query. Conversely every
  result either method returns with that total has this metadata, the total being an
  answer of the count query. Total 25, page 3 and limit 10 give 3 pages, no next page
  and a previous page.
\<close>

theorem findWithPagination_meta:
  assumes "1 \<le> effective_page options" and "1 \<le> effective_limit options" and "0 \<le> total_n"
  shows
    "(let page = effective_page options;
          limit = effective_limit options;
          totalPages = \<lceil>real_of_int total_n / real_of_int limit\<rceil>;
          expected = \<lparr>meta_total = total_n, meta_page = page, meta_limit = limit,
            meta_totalPages = Fin (of_int totalPages),
            meta_hasNextPage = (page < totalPages),
            meta_hasPrevPage = (1 < page)\<rparr>
      in (exec_docs m (page_query options) w = (Inr data, w1) \<and>
          exec_count m (count_query options) w1 = (Inr total_n, w2) \<longrightarrow>
            findWithPagination m options w = (Inr \<lparr>pr_data = data, pr_meta = expected\<rparr>, w2)) \<and>
         (exec_docs m (chain (page_query options) Lean) w = (Inr data, w1) \<and>
          exec_count m (count_query options) w1 = (Inr total_n, w2) \<longrightarrow>
            findWithPaginationLean m options w = (Inr \<lparr>pr_data = data, pr_meta = expected\<rparr>, w2)) \<and>
         (findWithPagination m options w = (Inr r, w') \<and> meta_total (pr_meta r) = total_n \<longrightarrow>
            pr_meta r = expected \<and>
            (\<exists>w0. exec_count m (count_query options) w0 = (Inr total_n, w'))) \<and>
         (findWithPaginationLean m options w = (Inr r, w') \<and> meta_total (pr_meta r) = total_n \<longrightarrow>
            pr_meta r = expected \<and>
            (\<exists>w0. exec_count m (count_query options) w0 = (Inr total_n, w'))) \<and>
         (total_n = 25 \<and> page = 3 \<and> limit = 10 \<longrightarrow>
            expected = \<lparr>meta_total = 25, meta_page = 3, meta_limit = 10,
              meta_totalPages = Fin 3, meta_hasNextPage = False, meta_hasPrevPage = True\<rparr>))"
proof -
  define page where "page = effective_page options"
  define limit where "limit = effective_limit options"
  define totalPages where "totalPages = \<lceil>real_of_int total_n / real_of_int limit\<rceil>"
  define expected where "expected =
    \<lparr>meta_total = total_n, meta_page = page, meta_limit = limit,
     meta_totalPages = Fin (of_int totalPages), meta_hasNextPage = (page < totalPages),
     meta_hasPrevPage = (1 < page)\<rparr>"
  have res: "page_result options d total_n = \<lparr>pr_data = d, pr_meta = expected\<rparr>" for d
    using page_result_meta [where options = options and data = d and total_n = total_n]
    unfolding expected_def totalPages_def page_def limit_def by simp
  have c1: "exec_docs m (page_query options) w = (Inr data, w1) \<and>
      exec_count m (count_query options) w1 = (Inr total_n, w2) \<longrightarrow>
      findWithPagination m options w = (Inr \<lparr>pr_data = data, pr_meta = expected\<rparr>, w2)"
    unfolding findWithPagination_exec io_map_promise_all_Inr res [symmetric] by blast
  have c2: "exec_docs m (chain (page_query options) Lean) w = (Inr data, w1) \<and>
      exec_count m (count_query options) w1 = (Inr total_n, w2) \<longrightarrow>
      findWithPaginationLean m options w = (Inr \<lparr>pr_data = data, pr_meta = expected\<rparr>, w2)"
    unfolding findWithPaginationLean_exec io_map_promise_all_Inr res [symmetric] by blast
  have c3: "findWithPagination m options w = (Inr r, w') \<and> meta_total (pr_meta r) = total_n \<longrightarrow>
      pr_meta r = expected \<and> (\<exists>w0. exec_count m (count_query options) w0 = (Inr total_n, w'))"
  proof
    assume a: "findWithPagination m options w = (Inr r, w') \<and> meta_total (pr_meta r) = total_n"
    then obtain d t w0 where "exec_count m (count_query options) w0 = (Inr t, w')"
      and "r = page_result options d t"
      unfolding findWithPagination_exec io_map_promise_all_Inr by blast
    with a res [of d] show "pr_meta r = expected \<and>
        (\<exists>w0. exec_count m (count_query options) w0 = (Inr total_n, w'))"
      by auto
  qed
  have c4: "findWithPaginationLean m options w = (Inr r, w') \<and> meta_total (pr_meta r) = total_n \<longrightarrow>
      pr_meta r = expected \<and> (\<exists>w0. exec_count m (count_query options) w0 = (Inr total_n, w'))"
  proof
    assume a: "findWithPaginationLean m options w = (Inr r, w') \<and> meta_total (pr_meta r) = total_n"
    then obtain d t w0 where "exec_count m (count_query options) w0 = (Inr t, w')"
      and "r = page_result options d t"
      unfolding findWithPaginationLean_exec io_map_promise_all_Inr by blast
    with a res [of d] show "pr_meta r = expected \<and>
        (\<exists>w0. exec_count m (count_query options) w0 = (Inr total_n, w'))"
      by auto
  qed
  have sc: "\<lceil>real_of_int 25 / real_of_int 10\<rceil> = (3::int)"
    by simp
  have c5: "total_n = 25 \<and> page = 3 \<and> limit = 10 \<longrightarrow>
      expected = \<lparr>meta_total = 25, meta_page = 3, meta_limit = 10,
        meta_totalPages = Fin 3, meta_hasNextPage = False, meta_hasPrevPage = True\<rparr>"
    unfolding expected_def totalPages_def using sc by auto
  from c1 c2 c3 c4 c5 show ?thesis
    unfolding Let_def expected_def totalPages_def page_def limit_def by blast
qed

theorem findWithPagination_meta_witness:
  "findWithPagination (stub_model [JObj []] 25)
     (Some (no_options\<lparr>fo_pagination := Some \<lparr>pg_page = Some 3, pg_limit = Some 10\<rparr>\<rparr>)) () =
   (Inr \<lparr>pr_data = [JObj []],
      pr_meta = \<lparr>meta_total = 25, meta_page = 3, meta_limit = 10, meta_totalPages = Fin 3,
        meta_hasNextPage = False, meta_hasPrevPage = True\<rparr>\<rparr>, ()) \<and>
   findWithPaginationLean (stub_model [JObj []] 25)
     (Some (no_options\<lparr>fo_pagination := Some \<lparr>pg_page = Some 3, pg_limit = Some 10\<rparr>\<rparr>)) () =
   (Inr \<lparr>pr_data = [JObj []],
      pr_meta = \<lparr>meta_total = 25, meta_page = 3, meta_limit = 10, meta_totalPages = Fin 3,
        meta_hasNextPage = False, meta_hasPrevPage = True\<rparr>\<rparr>, ())"
proof -
  let ?o = "Some (no_options\<lparr>fo_pagination := Some \<lparr>pg_page = Some 3, pg_limit = Some 10\<rparr>\<rparr>)"
  have p: "effective_page ?o = 3" and l: "effective_limit ?o = 10"
    by (simp_all add: num_or_def)
  have h: "1 \<le> effective_page ?o" "1 \<le> effective_limit ?o" "(0::int) \<le> 25"
    unfolding p l by simp_all
  have d: "exec_docs (stub_model [JObj []] 25) q () = (Inr [JObj []], ())"
    and c: "exec_count (stub_model [JObj []] 25) q () = (Inr 25, ())" for q
    by (simp_all add: stub_model_def)
  note t = findWithPagination_meta
    [OF h, of "stub_model [JObj []] 25" "()" "[JObj []]" "()" "()", unfolded Let_def p l d c]
  have e: "\<lparr>meta_total = 25, meta_page = 3, meta_limit = 10,
      meta_totalPages = Fin (real_of_int \<lceil>real_of_int 25 / real_of_int 10\<rceil>),
      meta_hasNextPage = (3 < \<lceil>real_of_int 25 / real_of_int 10\<rceil>),
      meta_hasPrevPage = (1 < (3::int))\<rparr> =
    \<lparr>meta_total = 25, meta_page = 3, meta_limit = 10, meta_totalPages = Fin 3,
      meta_hasNextPage = False, meta_hasPrevPage = True\<rparr>"
    using t [THEN conjunct2, THEN conjunct2, THEN conjunct2, THEN conjunct2] by simp
  from t [THEN conjunct1] t [THEN conjunct2, THEN conjunct1] show ?thesis
    unfolding e by simp
qed

section \<open>Pagination in \<open>findMany\<close>\<close>

text \<open>
  Claim C2. \<open>findMany\<close> and \<open>findManyLean\<close> issue one query. When the pagination
  option is present it is the option-applied find query followed by
  \<open>skip((page - 1) * limit)\<close> and \<open>limit(limit)\<close>, a missing page counting as 1 and a
  missing limit as 10; page 2 with limit 10 gives skip 10 and limit 10. When the
  pagination option is absent the query carries no skip and no limit call.
\<close>

theorem findMany_pagination:
  "(Option.bind options fo_pagination = Some pg \<longrightarrow>
      calls_of (findMany (traced m) options) w =
        [chain (chain (base_find options)
           (Skip ((nullish (pg_page pg) 1 - 1) * nullish (pg_limit pg) 10)))
           (Limit (nullish (pg_limit pg) 10))] \<and>
      calls_of (findManyLean (traced m) options) w =
        [chain (chain (chain (base_find options)
           (Skip ((nullish (pg_page pg) 1 - 1) * nullish (pg_limit pg) 10)))
           (Limit (nullish (pg_limit pg) 10))) Lean]) \<and>
   (pg_page pg = None \<longrightarrow> nullish (pg_page pg) 1 = 1) \<and>
   (pg_limit pg = None \<longrightarrow> nullish (pg_limit pg) 10 = 10) \<and>
   (Option.bind options fo_pagination = Some \<lparr>pg_page = Some 2, pg_limit = Some 10\<rparr> \<longrightarrow>
      calls_of (findMany (traced m) options) w =
        [chain (chain (base_find options) (Skip 10)) (Limit 10)]) \<and>
   (Option.bind options fo_pagination = None \<longrightarrow>
      calls_of (findMany (traced m) options) w = [base_find options] \<and>
      calls_of (findManyLean (traced m) options) w = [chain (base_find options) Lean] \<and>
      (\<forall>n. Skip n \<notin> set (q_calls (base_find options)) \<and>
           Limit n \<notin> set (q_calls (base_find options))))"
  using base_find_no_window [of _ options]
  by (simp add: calls_findMany calls_findManyLean nullish_def)

theorem findMany_pagination_witness:
  "calls_of (findMany (traced (mem_model name_given))
     (Some (no_options\<lparr>fo_pagination := Some \<lparr>pg_page = Some 2, pg_limit = Some 10\<rparr>\<rparr>))) users =
     [\<lparr>q_op = Find (JObj []), q_calls = [Skip 10, Limit 10]\<rparr>] \<and>
   calls_of (findMany (traced (mem_model name_given))
     (Some (no_options\<lparr>fo_pagination := Some \<lparr>pg_page = None, pg_limit = Some 4\<rparr>\<rparr>))) users =
     [\<lparr>q_op = Find (JObj []), q_calls = [Skip 0, Limit 4]\<rparr>] \<and>
   calls_of (findMany (traced (mem_model name_given)) (Some no_options)) users =
     [\<lparr>q_op = Find (JObj []), q_calls = []\<rparr>]"
proof -
  note ev = applyQueryOptions_def no_options_def or_else_def new_query_def chain_def nullish_def
  have 1: "calls_of (findMany (traced (mem_model name_given))
     (Some (no_options\<lparr>fo_pagination := Some \<lparr>pg_page = Some 2, pg_limit = Some 10\<rparr>\<rparr>))) users =
     [\<lparr>q_op = Find (JObj []), q_calls = [Skip 10, Limit 10]\<rparr>]"
    using findMany_pagination [of "Some (no_options\<lparr>fo_pagination := Some \<lparr>pg_page = Some 2, pg_limit = Some 10\<rparr>\<rparr>)"
        "\<lparr>pg_page = Some 2, pg_limit = Some 10\<rparr>" "mem_model name_given" users]
    by (simp add: ev)
  have 2: "calls_of (findMany (traced (mem_model name_given))
     (Some (no_options\<lparr>fo_pagination := Some \<lparr>pg_page = None, pg_limit = Some 4\<rparr>\<rparr>))) users =
     [\<lparr>q_op = Find (JObj []), q_calls = [Skip 0, Limit 4]\<rparr>]"
    using findMany_pagination [of "Some (no_options\<lparr>fo_pagination := Some \<lparr>pg_page = None, pg_limit = Some 4\<rparr>\<rparr>)"
        "\<lparr>pg_page = None, pg_limit = Some 4\<rparr>" "mem_model name_given" users]
    by (simp add: ev)
  have 3: "calls_of (findMany (traced (mem_model name_given)) (Some no_options)) users =
     [\<lparr>q_op = Find (JObj []), q_calls = []\<rparr>]"
    using findMany_pagination [of "Some no_options" "\<lparr>pg_page = None, pg_limit = None\<rparr>"
        "mem_model name_given" users]
    by (simp add: ev)
  from 1 2 3 show ?thesis by simp
qed

section \<open>The two calls of \<open>findWithPagination\<close>\<close>

text \<open>
  Claim C3. Against every driver and database state \<open>findWithPagination\<close> issues
  exactly two queries, fixed by the options alone: the query \<open>findMany\<close> issues for
  the effective page and limit, and a count over the same filter. The caller's session
  is the only session bound to either. The returned page and limit are the effective
  ones, 1 and 10 when the option or its field is missing.
\<close>

theorem findWithPagination_two_calls:
  "calls_of (findWithPagination (traced m) options) w = [page_query options, count_query options] \<and>
   calls_of (findMany (traced m)
     (Some ((nullish options no_options)
        \<lparr>fo_pagination := Some \<lparr>pg_page = Some (effective_page options),
                                pg_limit = Some (effective_limit options)\<rparr>\<rparr>))) w =
     [page_query options] \<and>
   q_op (page_query options) = Find (effective_filter options) \<and>
   q_op (count_query options) = CountDocuments (effective_filter options) \<and>
   sessions_of (page_query options) =
     (case Option.bind options fo_session of None \<Rightarrow> [] | Some s \<Rightarrow> [Some s]) \<and>
   sessions_of (count_query options) = [Option.bind options fo_session] \<and>
   (findWithPagination m options w = (Inr r, w') \<longrightarrow>
      meta_page (pr_meta r) = effective_page options \<and>
      meta_limit (pr_meta r) = effective_limit options \<and>
      (Option.bind (Option.bind options fo_pagination) pg_page = None \<longrightarrow> meta_page (pr_meta r) = 1) \<and>
      (Option.bind (Option.bind options fo_pagination) pg_limit = None \<longrightarrow> meta_limit (pr_meta r) = 10))"
proof -
  have a: "calls_of (findMany (traced m)
     (Some ((nullish options no_options)
        \<lparr>fo_pagination := Some \<lparr>pg_page = Some (effective_page options),
                                pg_limit = Some (effective_limit options)\<rparr>\<rparr>))) w =
     [page_query options]"
    by (simp add: calls_findMany applyQueryOptions_spread spread_filter nullish_Some)
  have b: "q_op (page_query options) = Find (effective_filter options)"
    by (simp add: chain_op applyQueryOptions_op new_query_def)
  have c: "q_op (count_query options) = CountDocuments (effective_filter options)"
    by (simp add: chain_op new_query_def)
  have d: "sessions_of (page_query options) =
     (case Option.bind options fo_session of None \<Rightarrow> [] | Some s \<Rightarrow> [Some s])"
    by (simp add: sessions_of_chain sessions_of_base_find)
  have e: "sessions_of (count_query options) = [Option.bind options fo_session]"
    by (simp add: sessions_of_chain) (simp add: sessions_of_def new_query_def List.map_filter_def)
  have f: "findWithPagination m options w = (Inr r, w') \<longrightarrow>
      meta_page (pr_meta r) = effective_page options \<and>
      meta_limit (pr_meta r) = effective_limit options \<and>
      (Option.bind (Option.bind options fo_pagination) pg_page = None \<longrightarrow> meta_page (pr_meta r) = 1) \<and>
      (Option.bind (Option.bind options fo_pagination) pg_limit = None \<longrightarrow> meta_limit (pr_meta r) = 10)"
    unfolding findWithPagination_Inr by (auto simp: num_or_def)
  from calls_findWithPagination [of m options w] a b c d e f show ?thesis
    by blast
qed

theorem findWithPagination_two_calls_witness:
  "calls_of (findWithPagination (traced (mem_model name_given))
      (Some (no_options\<lparr>fo_session := Some 7\<rparr>))) users =
     [\<lparr>q_op = Find (JObj []), q_calls = [Session (Some 7), Skip 0, Limit 10]\<rparr>,
      \<lparr>q_op = CountDocuments (JObj []), q_calls = [Session (Some 7)]\<rparr>] \<and>
   (\<exists>r. findWithPagination (mem_model name_given) (Some (no_options\<lparr>fo_session := Some 7\<rparr>)) users =
          (Inr r, users) \<and> meta_page (pr_meta r) = 1 \<and> meta_limit (pr_meta r) = 10)"
proof -
  note ev = applyQueryOptions_def no_options_def or_else_def new_query_def chain_def nullish_def
    num_or_def
  obtain r where run:
    "findWithPagination (mem_model name_given) (Some (no_options\<lparr>fo_session := Some 7\<rparr>)) users =
       (Inr r, users)"
    by (simp add: findWithPagination_def findMany_def count_def mem_model_def mem_exec_docs_def
        mem_exec_count_def io_map_def promise_all_def Let_def ev)
  from findWithPagination_two_calls
    [of "mem_model name_given" "Some (no_options\<lparr>fo_session := Some 7\<rparr>)" users r users]
  have "calls_of (findWithPagination (traced (mem_model name_given))
      (Some (no_options\<lparr>fo_session := Some 7\<rparr>))) users =
     [\<lparr>q_op = Find (JObj []), q_calls = [Session (Some 7), Skip 0, Limit 10]\<rparr>,
      \<lparr>q_op = CountDocuments (JObj []), q_calls = [Session (Some 7)]\<rparr>]"
    and "meta_page (pr_meta r) = 1 \<and> meta_limit (pr_meta r) = 10"
    using run by (simp_all add: ev)
  with run show ?thesis by blast
qed

section \<open>The divisor of the page count\<close>

text \<open>
  Claim C9. The limit that \<open>findWithPagination\<close> and \<open>findWithPaginationLean\<close> divide
  by is never 0: a limit that is missing or 0 is replaced by 10, so the page count is
  always a finite number.
\<close>

theorem findWithPagination_limit_nonzero:
  assumes "findWithPagination m options w = (Inr r, w') \<or>
           findWithPaginationLean m options w = (Inr r, w')"
  shows "meta_limit (pr_meta r) \<noteq> 0 \<and>
         meta_limit (pr_meta r) = effective_limit options \<and>
         meta_totalPages (pr_meta r) =
           math_ceil (js_divide (meta_total (pr_meta r)) (meta_limit (pr_meta r))) \<and>
         (\<exists>x. meta_totalPages (pr_meta r) = Fin x) \<and>
         (Option.bind (Option.bind options fo_pagination) pg_limit = None \<or>
          Option.bind (Option.bind options fo_pagination) pg_limit = Some 0 \<longrightarrow>
            meta_limit (pr_meta r) = 10)"
proof -
  define limit where "limit = effective_limit options"
  from assms obtain total_n
    where r: "meta_limit (pr_meta r) = limit" "meta_total (pr_meta r) = total_n"
      "meta_totalPages (pr_meta r) = math_ceil (js_divide total_n limit)"
    unfolding findWithPagination_Inr findWithPaginationLean_Inr limit_def by auto
  have nz: "limit \<noteq> 0"
    unfolding limit_def by (rule num_or_nonzero) simp
  have fin: "\<exists>x. math_ceil (js_divide total_n limit) = Fin x"
    using ceil_divide [OF nz] by blast
  have dflt: "Option.bind (Option.bind options fo_pagination) pg_limit = None \<or>
      Option.bind (Option.bind options fo_pagination) pg_limit = Some 0 \<longrightarrow> limit = 10"
    unfolding limit_def by (auto simp: num_or_def)
  show ?thesis
    using r nz fin dflt limit_def by simp
qed

theorem findWithPagination_limit_nonzero_witness:
  "\<exists>r. findWithPagination (mem_model name_given)
          (Some (no_options\<lparr>fo_pagination := Some \<lparr>pg_page = Some 1, pg_limit = Some 0\<rparr>\<rparr>)) users =
        (Inr r, users) \<and>
       meta_limit (pr_meta r) = 10 \<and> meta_total (pr_meta r) = 2 \<and>
       meta_totalPages (pr_meta r) = Fin 1"
proof -
  note ev = applyQueryOptions_def no_options_def or_else_def new_query_def chain_def nullish_def
    num_or_def
  obtain r where run:
    "findWithPagination (mem_model name_given)
       (Some (no_options\<lparr>fo_pagination := Some \<lparr>pg_page = Some 1, pg_limit = Some 0\<rparr>\<rparr>)) users =
     (Inr r, users)" and t: "meta_total (pr_meta r) = 2"
    by (simp add: findWithPagination_def findMany_def count_def mem_model_def mem_exec_docs_def
        mem_exec_count_def io_map_def promise_all_def Let_def ev users_def hits_def matches_def)
  from findWithPagination_limit_nonzero [OF disjI1 [OF run]]
  have "meta_limit (pr_meta r) = 10"
    and "meta_totalPages (pr_meta r) =
           math_ceil (js_divide (meta_total (pr_meta r)) (meta_limit (pr_meta r)))"
    by simp_all
  with t have "meta_limit (pr_meta r) = 10 \<and> meta_totalPages (pr_meta r) = Fin 1"
    by (simp add: js_divide_def ceiling_eq_iff)
  with run t show ?thesis by blast
qed

section \<open>Page 0\<close>

text \<open>
  Claim C10. \<open>findMany\<close> and \<open>findManyLean\<close> replace only a missing page or limit:
  page 0 with limit \<open>l\<close> gives \<open>skip((0 - 1) * l)\<close>, negative for a positive \<open>l\<close>,
  whereas \<open>findWithPagination\<close> turns page 0 into page 1 (skip 0) and limit 0 into
  limit 10 before it delegates.
\<close>

theorem findMany_page_zero:
  assumes "fo_pagination opts = Some \<lparr>pg_page = Some 0, pg_limit = Some l\<rparr>"
  shows "calls_of (findMany (traced m) (Some opts)) w =
           [chain (chain (base_find (Some opts)) (Skip ((0 - 1) * l))) (Limit l)] \<and>
         calls_of (findManyLean (traced m) (Some opts)) w =
           [chain (chain (chain (base_find (Some opts)) (Skip ((0 - 1) * l))) (Limit l)) Lean] \<and>
         (0 < l \<longrightarrow> (0 - 1) * l < 0) \<and>
         calls_of (findWithPagination (traced m) (Some opts)) w =
           [chain (chain (base_find (Some opts)) (Skip 0)) (Limit (if l = 0 then 10 else l)),
            count_query (Some opts)] \<and>
         calls_of (findWithPaginationLean (traced m) (Some opts)) w =
           [chain (chain (chain (base_find (Some opts)) (Skip 0)) (Limit (if l = 0 then 10 else l))) Lean,
            count_query (Some opts)]"
  using assms
  by (simp add: calls_findMany calls_findManyLean calls_findWithPagination
      calls_findWithPaginationLean nullish_def num_or_def)

theorem findMany_page_zero_witness:
  "calls_of (findMany (traced (mem_model name_given))
      (Some (no_options\<lparr>fo_pagination := Some \<lparr>pg_page = Some 0, pg_limit = Some 5\<rparr>\<rparr>))) users =
     [\<lparr>q_op = Find (JObj []), q_calls = [Skip (- 5), Limit 5]\<rparr>] \<and>
   calls_of (findWithPagination (traced (mem_model name_given))
      (Some (no_options\<lparr>fo_pagination := Some \<lparr>pg_page = Some 0, pg_limit = Some 5\<rparr>\<rparr>))) users =
     [\<lparr>q_op = Find (JObj []), q_calls = [Skip 0, Limit 5]\<rparr>,
      \<lparr>q_op = CountDocuments (JObj []), q_calls = [Session None]\<rparr>]"
proof -
  note ev = applyQueryOptions_def no_options_def or_else_def new_query_def chain_def nullish_def
    num_or_def
  have p: "fo_pagination (no_options\<lparr>fo_pagination := Some \<lparr>pg_page = Some 0, pg_limit = Some 5\<rparr>\<rparr>) =
      Some \<lparr>pg_page = Some 0, pg_limit = Some 5\<rparr>"
    by simp
  from findMany_page_zero [OF p, of "mem_model name_given" users]
  show ?thesis by (simp add: ev)
qed

section \<open>The lean variant of \<open>findWithPagination\<close>\<close>

text \<open>
  Claim C7. For the same options \<open>findWithPaginationLean\<close> issues the queries of
  \<open>findWithPagination\<close>: the same filter, page, limit, skip and count query. The page
  query has one more call, \<open>lean()\<close>, made last. Both methods are the same function of
  what the driver answers to their two queries: the result holds the documents the
  driver answered to the page query (the lean ones for the lean method) and the same
  metadata for the same total.
\<close>

theorem findWithPaginationLean_same_query:
  "calls_of (findWithPagination (traced m) options) w = [page_query options, count_query options] \<and>
   calls_of (findWithPaginationLean (traced m) options) w =
     [chain (page_query options) Lean, count_query options] \<and>
   q_op (chain (page_query options) Lean) = q_op (page_query options) \<and>
   q_calls (chain (page_query options) Lean) = q_calls (page_query options) @ [Lean] \<and>
   findWithPagination m options =
     io_map (\<lambda>(data, total_n). page_result options data total_n)
       (promise_all (second_first m) (exec_docs m (page_query options))
          (exec_count m (count_query options))) \<and>
   findWithPaginationLean m options =
     io_map (\<lambda>(data, total_n). page_result options data total_n)
       (promise_all (second_first m) (exec_docs m (chain (page_query options) Lean))
          (exec_count m (count_query options))) \<and>
   (exec_docs m (page_query options) w1 = (Inr data, w2) \<and>
    exec_docs m (chain (page_query options) Lean) w1 = (Inr data', w2) \<and>
    exec_count m (count_query options) w2 = (Inr total_n, w3) \<longrightarrow>
      findWithPagination m options w1 = (Inr (page_result options data total_n), w3) \<and>
      findWithPaginationLean m options w1 = (Inr (page_result options data' total_n), w3)) \<and>
   (findWithPagination m options w1 = (Inr r, w1') \<and>
    findWithPaginationLean m options w2 = (Inr r', w2') \<and>
    meta_total (pr_meta r) = meta_total (pr_meta r') \<longrightarrow> pr_meta r = pr_meta r')"
proof -
  have both: "exec_docs m (page_query options) w1 = (Inr data, w2) \<and>
    exec_docs m (chain (page_query options) Lean) w1 = (Inr data', w2) \<and>
    exec_count m (count_query options) w2 = (Inr total_n, w3) \<longrightarrow>
      findWithPagination m options w1 = (Inr (page_result options data total_n), w3) \<and>
      findWithPaginationLean m options w1 = (Inr (page_result options data' total_n), w3)"
    unfolding findWithPagination_exec findWithPaginationLean_exec io_map_promise_all_Inr
    by blast
  have meta: "findWithPagination m options w1 = (Inr r, w1') \<and>
    findWithPaginationLean m options w2 = (Inr r', w2') \<and>
    meta_total (pr_meta r) = meta_total (pr_meta r') \<longrightarrow> pr_meta r = pr_meta r'"
    unfolding findWithPagination_Inr findWithPaginationLean_Inr by auto
  from both meta findWithPagination_exec [of m options] findWithPaginationLean_exec [of m options]
    calls_findWithPagination [of m options w] calls_findWithPaginationLean [of m options w]
    chain_op [of "page_query options" Lean] chain_calls [of "page_query options" Lean]
  show ?thesis by blast
qed

theorem findWithPaginationLean_same_query_witness:
  "calls_of (findWithPagination (traced (mem_model name_given))
      (Some (no_options\<lparr>fo_pagination := Some \<lparr>pg_page = Some 2, pg_limit = Some 1\<rparr>\<rparr>))) users =
     [\<lparr>q_op = Find (JObj []), q_calls = [Skip 1, Limit 1]\<rparr>,
      \<lparr>q_op = CountDocuments (JObj []), q_calls = [Session None]\<rparr>] \<and>
   calls_of (findWithPaginationLean (traced (mem_model name_given))
      (Some (no_options\<lparr>fo_pagination := Some \<lparr>pg_page = Some 2, pg_limit = Some 1\<rparr>\<rparr>))) users =
     [\<lparr>q_op = Find (JObj []), q_calls = [Skip 1, Limit 1, Lean]\<rparr>,
      \<lparr>q_op = CountDocuments (JObj []), q_calls = [Session None]\<rparr>] \<and>
   findWithPagination (mem_model name_given)
      (Some (no_options\<lparr>fo_pagination := Some \<lparr>pg_page = Some 2, pg_limit = Some 1\<rparr>\<rparr>)) users =
     (Inr \<lparr>pr_data = [JObj [(''name'', JStr ''C''), (''age'', JNum 41)]],
        pr_meta = \<lparr>meta_total = 2, meta_page = 2, meta_limit = 1, meta_totalPages = Fin 2,
          meta_hasNextPage = False, meta_hasPrevPage = True\<rparr>\<rparr>, users) \<and>
   findWithPaginationLean (mem_model name_given)
      (Some (no_options\<lparr>fo_pagination := Some \<lparr>pg_page = Some 2, pg_limit = Some 1\<rparr>\<rparr>)) users =
     (Inr \<lparr>pr_data = [JObj [(''name'', JStr ''C''), (''age'', JNum 41)]],
        pr_meta = \<lparr>meta_total = 2, meta_page = 2, meta_limit = 1, meta_totalPages = Fin 2,
          meta_hasNextPage = False, meta_hasPrevPage = True\<rparr>\<rparr>, users)"
proof -
  note ev = applyQueryOptions_def no_options_def or_else_def new_query_def chain_def nullish_def
    num_or_def
  let ?o = "Some (no_options\<lparr>fo_pagination := Some \<lparr>pg_page = Some 2, pg_limit = Some 1\<rparr>\<rparr>)"
  let ?d = "[JObj [(''name'', JStr ''C''), (''age'', JNum 41)]]"
  have d: "exec_docs (mem_model name_given) (page_query ?o) users = (Inr ?d, users)"
    by (simp add: mem_model_def mem_exec_docs_def ev users_def hits_def matches_def)
  have d': "exec_docs (mem_model name_given) (chain (page_query ?o) Lean) users = (Inr ?d, users)"
    by (simp add: mem_model_def mem_exec_docs_def ev users_def hits_def matches_def)
  have c: "exec_count (mem_model name_given) (count_query ?o) users = (Inr 2, users)"
    by (simp add: mem_model_def mem_exec_count_def ev users_def hits_def matches_def)
  note inst = findWithPaginationLean_same_query
    [of "mem_model name_given" ?o users users ?d users ?d 2 users]
  have c1: "calls_of (findWithPagination (traced (mem_model name_given)) ?o) users =
     [\<lparr>q_op = Find (JObj []), q_calls = [Skip 1, Limit 1]\<rparr>,
      \<lparr>q_op = CountDocuments (JObj []), q_calls = [Session None]\<rparr>]"
    using inst [THEN conjunct1] by (simp add: ev)
  have c2: "calls_of (findWithPaginationLean (traced (mem_model name_given)) ?o) users =
     [\<lparr>q_op = Find (JObj []), q_calls = [Skip 1, Limit 1, Lean]\<rparr>,
      \<lparr>q_op = CountDocuments (JObj []), q_calls = [Session None]\<rparr>]"
    using inst [THEN conjunct2, THEN conjunct1] by (simp add: ev)
  have m: "page_result ?o ?d 2 =
      \<lparr>pr_data = ?d,
       pr_meta = \<lparr>meta_total = 2, meta_page = 2, meta_limit = 1, meta_totalPages = Fin 2,
          meta_hasNextPage = False, meta_hasPrevPage = True\<rparr>\<rparr>"
    by (simp add: num_or_def js_divide_def)
  have r: "findWithPagination (mem_model name_given) ?o users = (Inr (page_result ?o ?d 2), users) \<and>
      findWithPaginationLean (mem_model name_given) ?o users = (Inr (page_result ?o ?d 2), users)"
    using inst [THEN conjunct2, THEN conjunct2, THEN conjunct2, THEN conjunct2, THEN conjunct2,
        THEN conjunct2, THEN conjunct1] d d' c
    by blast
  from c1 c2 r show ?thesis
    unfolding m by blast
qed

section \<open>The order of option application\<close>



section \<open>Validators on update\<close>

text \<open>
  Claim C5. \<open>updateById\<close>, \<open>updateOne\<close> and \<open>updateMany\<close> each issue one query whose
  \<open>runValidators\<close> option is \<open>true\<close> when the caller supplies none, and the caller's
  value otherwise, so \<open>false\<close> switches validation off for that call. The query depends
  on the arguments of the call alone: there is no other setting to change the default.
\<close>

theorem update_runValidators_default:
  "calls_of (updateById (traced m) i u options) w =
     [new_query (FindByIdAndUpdate i u
        \<lparr>opt_new = Some True,
         opt_runValidators =
           Some (case Option.bind options uo_runValidators of None \<Rightarrow> True | Some b \<Rightarrow> b),
         opt_session = Option.bind options uo_session\<rparr>)] \<and>
   calls_of (updateOne (traced m) f u options) w =
     [new_query (FindOneAndUpdate f u
        \<lparr>opt_new = Some True,
         opt_runValidators =
           Some (case Option.bind options uo_runValidators of None \<Rightarrow> True | Some b \<Rightarrow> b),
         opt_session = Option.bind options uo_session\<rparr>)] \<and>
   calls_of (updateMany (traced m) f u options) w =
     [new_query (UpdateMany f u
        \<lparr>opt_new = None,
         opt_runValidators =
           Some (case Option.bind options uo_runValidators of None \<Rightarrow> True | Some b \<Rightarrow> b),
         opt_session = Option.bind options uo_session\<rparr>)]"
  by (simp add: updateById_def updateOne_def updateMany_def traced_exec_doc traced_exec_update
      nullish_def)

theorem update_runValidators_default_witness:
  "calls_of (updateById (traced (mem_model name_given)) ''u1'' (JObj [(''name'', JStr [])]) None) users =
     [\<lparr>q_op = FindByIdAndUpdate ''u1'' (JObj [(''name'', JStr [])])
         \<lparr>opt_new = Some True, opt_runValidators = Some True, opt_session = None\<rparr>,
       q_calls = []\<rparr>] \<and>
   calls_of (updateById (traced (mem_model name_given)) ''u1'' (JObj [(''name'', JStr [])])
       (Some \<lparr>uo_session = Some 4, uo_runValidators = Some False\<rparr>)) users =
     [\<lparr>q_op = FindByIdAndUpdate ''u1'' (JObj [(''name'', JStr [])])
         \<lparr>opt_new = Some True, opt_runValidators = Some False, opt_session = Some 4\<rparr>,
       q_calls = []\<rparr>] \<and>
   calls_of (updateMany (traced (mem_model name_given)) (JObj []) (JObj [(''age'', JNum 1)])
       (Some \<lparr>uo_session = None, uo_runValidators = None\<rparr>)) users =
     [\<lparr>q_op = UpdateMany (JObj []) (JObj [(''age'', JNum 1)])
         \<lparr>opt_new = None, opt_runValidators = Some True, opt_session = None\<rparr>,
       q_calls = []\<rparr>] \<and>
   fst (updateById (mem_model name_given) ''u1'' (JObj [(''name'', JStr [])]) None users) =
     Inl (ValidationError ''rejected'') \<and>
   fst (updateById (mem_model name_given) ''u1'' (JObj [(''name'', JStr [])])
     (Some \<lparr>uo_session = Some 4, uo_runValidators = Some False\<rparr>) users) =
     Inr (Some (JObj [(''age'', JNum 30), (''name'', JStr [])]))"
proof -
  have run: "fst (updateById (mem_model name_given) ''u1'' (JObj [(''name'', JStr [])]) None users) =
     Inl (ValidationError ''rejected'') \<and>
   fst (updateById (mem_model name_given) ''u1'' (JObj [(''name'', JStr [])])
     (Some \<lparr>uo_session = Some 4, uo_runValidators = Some False\<rparr>) users) =
     Inr (Some (JObj [(''age'', JNum 30), (''name'', JStr [])]))"
    by (simp add: updateById_def mem_model_def mem_exec_doc_def mem_update_def new_query_def
        users_def hits_def patch_def name_given_def nullish_def Let_def)
  show ?thesis
    using update_runValidators_default
        [of "mem_model name_given" "''u1''" "JObj [(''name'', JStr [])]" None users]
      update_runValidators_default
        [of "mem_model name_given" "''u1''" "JObj [(''name'', JStr [])]"
          "Some \<lparr>uo_session = Some 4, uo_runValidators = Some False\<rparr>" users]
      update_runValidators_default
        [of "mem_model name_given" _ "JObj [(''age'', JNum 1)]"
          "Some \<lparr>uo_session = None, uo_runValidators = None\<rparr>" users "JObj []"]
      run
    by (simp add: new_query_def)
qed

section \<open>The updated document\<close>

text \<open>
  Claim C4. \<open>updateById\<close> and \<open>updateOne\<close> return the driver's answer to one query,
  which always asks for the document as it is after the update (\<open>new: true\<close>), whatever
  options the caller passes. Hence, with any driver that answers such a request with a
  document of the state it leaves behind (\<open>current\<close>), an entity they return is a
  document of the state after the update; and if that driver answers a request that
  matches an entity (\<open>matched\<close>) with such a document unless it rejects the update, so do
  \<open>updateById\<close> and \<open>updateOne\<close>.
\<close>

theorem update_returns_updated_document:
  "map (requests_updated \<circ> q_op) (calls_of (updateById (traced m) i u options) w) = [True] \<and>
   map (requests_updated \<circ> q_op) (calls_of (updateOne (traced m) f u options) w) = [True] \<and>
   updateById m i u options =
     exec_doc m (new_query (FindByIdAndUpdate i u
       \<lparr>opt_new = Some True,
        opt_runValidators = Some (nullish (Option.bind options uo_runValidators) True),
        opt_session = Option.bind options uo_session\<rparr>)) \<and>
   updateOne m f u options =
     exec_doc m (new_query (FindOneAndUpdate f u
       \<lparr>opt_new = Some True,
        opt_runValidators = Some (nullish (Option.bind options uo_runValidators) True),
        opt_session = Option.bind options uo_session\<rparr>)) \<and>
   ((\<forall>q w0 r0 w0'. requests_updated (q_op q) \<longrightarrow> exec_doc m q w0 = (Inr (Some r0), w0') \<longrightarrow>
        current w0' r0) \<longrightarrow>
    (updateById m i u options w = (Inr (Some r), w') \<longrightarrow> current w' r) \<and>
    (updateOne m f u options w = (Inr (Some r), w') \<longrightarrow> current w' r)) \<and>
   ((\<forall>q w0 res0 w0'. requests_updated (q_op q) \<longrightarrow> matched w0 (target_of (q_op q)) \<longrightarrow>
        exec_doc m q w0 = (Inr res0, w0') \<longrightarrow> (\<exists>r0. res0 = Some r0 \<and> current w0' r0)) \<longrightarrow>
    (matched w (ById i) \<longrightarrow> updateById m i u options w = (Inr res, w') \<longrightarrow>
       (\<exists>r1. res = Some r1 \<and> current w' r1)) \<and>
    (matched w (ByFilter f) \<longrightarrow> updateOne m f u options w = (Inr res, w') \<longrightarrow>
       (\<exists>r1. res = Some r1 \<and> current w' r1)))"
proof -
  let ?qi = "new_query (FindByIdAndUpdate i u
       \<lparr>opt_new = Some True,
        opt_runValidators = Some (nullish (Option.bind options uo_runValidators) True),
        opt_session = Option.bind options uo_session\<rparr>)"
  let ?qf = "new_query (FindOneAndUpdate f u
       \<lparr>opt_new = Some True,
        opt_runValidators = Some (nullish (Option.bind options uo_runValidators) True),
        opt_session = Option.bind options uo_session\<rparr>)"
  have ei: "updateById m i u options = exec_doc m ?qi"
    by (simp add: updateById_def)
  have ef: "updateOne m f u options = exec_doc m ?qf"
    by (simp add: updateOne_def)
  have qi: "requests_updated (q_op ?qi)" "target_of (q_op ?qi) = ById i"
    by (simp_all add: new_query_def)
  have qf: "requests_updated (q_op ?qf)" "target_of (q_op ?qf) = ByFilter f"
    by (simp_all add: new_query_def)
  have a: "map (requests_updated \<circ> q_op) (calls_of (updateById (traced m) i u options) w) = [True]"
    by (simp add: updateById_def traced_exec_doc new_query_def)
  have b: "map (requests_updated \<circ> q_op) (calls_of (updateOne (traced m) f u options) w) = [True]"
    by (simp add: updateOne_def traced_exec_doc new_query_def)
  have c: "(updateById m i u options w = (Inr (Some r), w') \<longrightarrow> current w' r) \<and>
      (updateOne m f u options w = (Inr (Some r), w') \<longrightarrow> current w' r)"
    if h: "\<forall>q w0 r0 w0'. requests_updated (q_op q) \<longrightarrow> exec_doc m q w0 = (Inr (Some r0), w0') \<longrightarrow>
        current w0' r0"
    unfolding ei ef using h qi(1) qf(1) by blast
  have d: "(matched w (ById i) \<longrightarrow> updateById m i u options w = (Inr res, w') \<longrightarrow>
       (\<exists>r1. res = Some r1 \<and> current w' r1)) \<and>
    (matched w (ByFilter f) \<longrightarrow> updateOne m f u options w = (Inr res, w') \<longrightarrow>
       (\<exists>r1. res = Some r1 \<and> current w' r1))"
    if h: "\<forall>q w0 res0 w0'. requests_updated (q_op q) \<longrightarrow> matched w0 (target_of (q_op q)) \<longrightarrow>
        exec_doc m q w0 = (Inr res0, w0') \<longrightarrow> (\<exists>r0. res0 = Some r0 \<and> current w0' r0)"
  proof (intro conjI impI)
    assume "matched w (ById i)" and "updateById m i u options w = (Inr res, w')"
    then show "\<exists>r1. res = Some r1 \<and> current w' r1"
      unfolding ei using h [rule_format, of ?qi w res w'] qi by simp
  next
    assume "matched w (ByFilter f)" and "updateOne m f u options w = (Inr res, w')"
    then show "\<exists>r1. res = Some r1 \<and> current w' r1"
      unfolding ef using h [rule_format, of ?qf w res w'] qf by simp
  qed
  from a b ei ef c d show ?thesis by blast
qed

theorem update_returns_updated_document_witness:
  "list_ex (hits (ById ''u1'')) users \<and>
   updateById (mem_model name_given) ''u1'' (JObj [(''name'', JStr ''B'')]) None users =
     (Inr (Some (JObj [(''age'', JNum 30), (''name'', JStr ''B'')])),
      [(''u1'', JObj [(''age'', JNum 30), (''name'', JStr ''B'')]),
       (''u2'', JObj [(''name'', JStr ''C''), (''age'', JNum 41)])]) \<and>
   JObj [(''age'', JNum 30), (''name'', JStr ''B'')] \<in>
     snd ` set [(''u1'', JObj [(''age'', JNum 30), (''name'', JStr ''B'')]),
       (''u2'', JObj [(''name'', JStr ''C''), (''age'', JNum 41)])] \<and>
   list_ex (hits (ByFilter (JObj [(''name'', JStr ''C'')]))) users \<and>
   updateOne (mem_model name_given) (JObj [(''name'', JStr ''C'')]) (JObj [(''age'', JNum 42)])
       (Some \<lparr>uo_session = Some 5, uo_runValidators = Some False\<rparr>) users =
     (Inr (Some (JObj [(''name'', JStr ''C''), (''age'', JNum 42)])),
      [(''u1'', JObj [(''name'', JStr ''A''), (''age'', JNum 30)]),
       (''u2'', JObj [(''name'', JStr ''C''), (''age'', JNum 42)])]) \<and>
   JObj [(''name'', JStr ''C''), (''age'', JNum 42)] \<in>
     snd ` set [(''u1'', JObj [(''name'', JStr ''A''), (''age'', JNum 30)]),
       (''u2'', JObj [(''name'', JStr ''C''), (''age'', JNum 42)])]"
proof -
  note ev = mem_model_def mem_exec_doc_def mem_update_def new_query_def
    users_def hits_def matches_def patch_def name_given_def nullish_def Let_def
  let ?db1 = "[(''u1'', JObj [(''age'', JNum 30), (''name'', JStr ''B'')]),
       (''u2'', JObj [(''name'', JStr ''C''), (''age'', JNum 41)])]"
  let ?db2 = "[(''u1'', JObj [(''name'', JStr ''A''), (''age'', JNum 30)]),
       (''u2'', JObj [(''name'', JStr ''C''), (''age'', JNum 42)])]"
  have m1: "list_ex (hits (ById ''u1'')) users"
    by (simp add: users_def hits_def)
  have m2: "list_ex (hits (ByFilter (JObj [(''name'', JStr ''C'')]))) users"
    by (simp add: users_def hits_def matches_def)
  have q1: "exec_doc (mem_model name_given)
      (new_query (FindByIdAndUpdate ''u1'' (JObj [(''name'', JStr ''B'')])
        \<lparr>opt_new = Some True, opt_runValidators = Some (nullish (Option.bind None uo_runValidators) True),
         opt_session = Option.bind None uo_session\<rparr>)) users =
      (Inr (Some (JObj [(''age'', JNum 30), (''name'', JStr ''B'')])), ?db1)"
    by (simp add: ev)
  have q2: "exec_doc (mem_model name_given)
      (new_query (FindOneAndUpdate (JObj [(''name'', JStr ''C'')]) (JObj [(''age'', JNum 42)])
        \<lparr>opt_new = Some True,
         opt_runValidators = Some (nullish (Option.bind
           (Some \<lparr>uo_session = Some 5, uo_runValidators = Some False\<rparr>) uo_runValidators) True),
         opt_session = Option.bind
           (Some \<lparr>uo_session = Some 5, uo_runValidators = Some False\<rparr>) uo_session\<rparr>)) users =
      (Inr (Some (JObj [(''name'', JStr ''C''), (''age'', JNum 42)])), ?db2)"
    by (simp add: ev)
  have h: "\<forall>q w0 res0 w0'. requests_updated (q_op q) \<longrightarrow> list_ex (hits (target_of (q_op q))) w0 \<longrightarrow>
      exec_doc (mem_model name_given) q w0 = (Inr res0, w0') \<longrightarrow>
      (\<exists>r0. res0 = Some r0 \<and> r0 \<in> snd ` set w0')"
    using mem_answers_updated by blast
  note t1 = update_returns_updated_document
    [where m = "mem_model name_given" and i = "''u1''" and u = "JObj [(''name'', JStr ''B'')]"
      and options = None and w = users and current = "\<lambda>db d. d \<in> snd ` set db"
      and matched = "\<lambda>db t. list_ex (hits t) db"
      and res = "Some (JObj [(''age'', JNum 30), (''name'', JStr ''B'')])" and w' = ?db1]
  note t2 = update_returns_updated_document
    [where m = "mem_model name_given" and f = "JObj [(''name'', JStr ''C'')]"
      and u = "JObj [(''age'', JNum 42)]"
      and options = "Some \<lparr>uo_session = Some 5, uo_runValidators = Some False\<rparr>"
      and w = users and current = "\<lambda>db d. d \<in> snd ` set db"
      and matched = "\<lambda>db t. list_ex (hits t) db"
      and res = "Some (JObj [(''name'', JStr ''C''), (''age'', JNum 42)])" and w' = ?db2]
  have r1: "updateById (mem_model name_given) ''u1'' (JObj [(''name'', JStr ''B'')]) None users =
      (Inr (Some (JObj [(''age'', JNum 30), (''name'', JStr ''B'')])), ?db1)"
    using t1 [THEN conjunct2, THEN conjunct2, THEN conjunct1] q1 by simp
  have r2: "updateOne (mem_model name_given) (JObj [(''name'', JStr ''C'')]) (JObj [(''age'', JNum 42)])
       (Some \<lparr>uo_session = Some 5, uo_runValidators = Some False\<rparr>) users =
      (Inr (Some (JObj [(''name'', JStr ''C''), (''age'', JNum 42)])), ?db2)"
    using t2 [THEN conjunct2, THEN conjunct2, THEN conjunct2, THEN conjunct1] q2 by simp
  have c1: "JObj [(''age'', JNum 30), (''name'', JStr ''B'')] \<in> snd ` set ?db1"
    using t1 [THEN conjunct2, THEN conjunct2, THEN conjunct2, THEN conjunct2, THEN conjunct2] h m1 r1
    by blast
  have c2: "JObj [(''name'', JStr ''C''), (''age'', JNum 42)] \<in> snd ` set ?db2"
    using t2 [THEN conjunct2, THEN conjunct2, THEN conjunct2, THEN conjunct2, THEN conjunct2] h m2 r2
    by blast
  from m1 r1 c1 m2 r2 c2 show ?thesis by blast
qed

section \<open>Missing entities\<close>

text \<open>
  Claim C6, as stated, fails: the methods add no handling of their own, so with a driver
  that rejects a query for a missing entity (here an id it cannot cast) \<open>findById\<close>,
  \<open>updateById\<close> and \<open>deleteById\<close> fail with that rejection.
\<close>

theorem not_found_counterexample:
  "\<not> list_ex (hits (ById ''u9'')) users \<and>
   fst (findById (casting_model name_given) ''u9'' None users) = Inl (DriverError ''CastError'') \<and>
   fst (updateById (casting_model name_given) ''u9'' (JObj [(''name'', JStr ''B'')]) None users) =
     Inl (DriverError ''CastError'') \<and>
   fst (deleteById (casting_model name_given) ''u9'' None users) = Inl (DriverError ''CastError'')"
  by (simp add: findById_def updateById_def deleteById_def casting_model_def castable_def
      applyQueryOptions_def new_query_def users_def hits_def)

text \<open>
  Claim C6, amended. \<open>updateById\<close>, \<open>updateOne\<close>, \<open>deleteById\<close>, \<open>deleteOne\<close>,
  \<open>findById\<close> and \<open>findOne\<close> return exactly what the driver answers to the one query
  they build. With a driver that answers \<open>null\<close> when the id or filter of a query matches
  nothing (\<open>absent\<close>), they return \<open>null\<close>, not an error.
\<close>

theorem missing_entity_driver_answer:
  "updateById m i u uopts =
     exec_doc m (new_query (FindByIdAndUpdate i u
       \<lparr>opt_new = Some True,
        opt_runValidators = Some (nullish (Option.bind uopts uo_runValidators) True),
        opt_session = Option.bind uopts uo_session\<rparr>)) \<and>
   updateOne m f u uopts =
     exec_doc m (new_query (FindOneAndUpdate f u
       \<lparr>opt_new = Some True,
        opt_runValidators = Some (nullish (Option.bind uopts uo_runValidators) True),
        opt_session = Option.bind uopts uo_session\<rparr>)) \<and>
   deleteById m i mopts =
     exec_doc m (new_query (FindByIdAndDelete i
       \<lparr>opt_new = None, opt_runValidators = None,
        opt_session = Option.bind mopts mo_session\<rparr>)) \<and>
   deleteOne m f mopts =
     exec_doc m (new_query (FindOneAndDelete f
       \<lparr>opt_new = None, opt_runValidators = None,
        opt_session = Option.bind mopts mo_session\<rparr>)) \<and>
   findById m i fopts = exec_doc m (applyQueryOptions (new_query (FindById i)) fopts) \<and>
   findOne m fopts =
     exec_doc m (applyQueryOptions (new_query (FindOne (effective_filter fopts))) fopts) \<and>
   ((\<forall>q w0. absent w0 (target_of (q_op q)) \<longrightarrow> fst (exec_doc m q w0) = Inr None) \<longrightarrow>
    (absent w (ById i) \<longrightarrow>
       fst (updateById m i u uopts w) = Inr None \<and>
       fst (deleteById m i mopts w) = Inr None \<and>
       fst (findById m i fopts w) = Inr None) \<and>
    (absent w (ByFilter f) \<longrightarrow>
       fst (updateOne m f u uopts w) = Inr None \<and>
       fst (deleteOne m f mopts w) = Inr None) \<and>
    (absent w (ByFilter (effective_filter fopts)) \<longrightarrow>
       fst (findOne m fopts w) = Inr None))"
proof -
  have eq: "updateById m i u uopts =
     exec_doc m (new_query (FindByIdAndUpdate i u
       \<lparr>opt_new = Some True,
        opt_runValidators = Some (nullish (Option.bind uopts uo_runValidators) True),
        opt_session = Option.bind uopts uo_session\<rparr>))"
    "updateOne m f u uopts =
     exec_doc m (new_query (FindOneAndUpdate f u
       \<lparr>opt_new = Some True,
        opt_runValidators = Some (nullish (Option.bind uopts uo_runValidators) True),
        opt_session = Option.bind uopts uo_session\<rparr>))"
    "deleteById m i mopts =
     exec_doc m (new_query (FindByIdAndDelete i
       \<lparr>opt_new = None, opt_runValidators = None,
        opt_session = Option.bind mopts mo_session\<rparr>))"
    "deleteOne m f mopts =
     exec_doc m (new_query (FindOneAndDelete f
       \<lparr>opt_new = None, opt_runValidators = None,
        opt_session = Option.bind mopts mo_session\<rparr>))"
    "findById m i fopts = exec_doc m (applyQueryOptions (new_query (FindById i)) fopts)"
    "findOne m fopts =
     exec_doc m (applyQueryOptions (new_query (FindOne (effective_filter fopts))) fopts)"
    by (simp_all add: updateById_def updateOne_def deleteById_def deleteOne_def findById_def
        findOne_def Let_def)
  have null: "(absent w (ById i) \<longrightarrow>
       fst (updateById m i u uopts w) = Inr None \<and>
       fst (deleteById m i mopts w) = Inr None \<and>
       fst (findById m i fopts w) = Inr None) \<and>
    (absent w (ByFilter f) \<longrightarrow>
       fst (updateOne m f u uopts w) = Inr None \<and>
       fst (deleteOne m f mopts w) = Inr None) \<and>
    (absent w (ByFilter (effective_filter fopts)) \<longrightarrow>
       fst (findOne m fopts w) = Inr None)"
    if h: "\<forall>q w0. absent w0 (target_of (q_op q)) \<longrightarrow> fst (exec_doc m q w0) = Inr None"
  proof -
    have h': "fst (exec_doc m q w) = Inr None" if "absent w (target_of (q_op q))" for q
      using h that by blast
    show ?thesis
      unfolding eq
      by (intro conjI impI; rule h') (simp_all add: new_query_def applyQueryOptions_op)
  qed
  from eq null show ?thesis by blast
qed

theorem missing_entity_driver_answer_witness:
  "\<not> list_ex (hits (ById ''u9'')) users \<and>
   fst (updateById (mem_model name_given) ''u9'' (JObj [(''name'', JStr ''B'')]) None users) = Inr None \<and>
   fst (deleteById (mem_model name_given) ''u9'' None users) = Inr None \<and>
   fst (findById (mem_model name_given) ''u9'' None users) = Inr None \<and>
   \<not> list_ex (hits (ByFilter (JObj [(''name'', JStr ''Z'')]))) users \<and>
   fst (updateOne (mem_model name_given) (JObj [(''name'', JStr ''Z'')])
     (JObj [(''name'', JStr ''B'')]) None users) = Inr None \<and>
   fst (deleteOne (mem_model name_given) (JObj [(''name'', JStr ''Z'')]) None users) = Inr None \<and>
   fst (findOne (mem_model name_given)
     (Some (no_options\<lparr>fo_filter := Some (JObj [(''name'', JStr ''Z'')])\<rparr>)) users) = Inr None"
proof -
  have h: "\<forall>q w0. \<not> list_ex (hits (target_of (q_op q))) w0 \<longrightarrow>
      fst (exec_doc (mem_model name_given) q w0) = Inr None"
    using mem_absent_null by blast
  have a: "\<not> list_ex (hits (ById ''u9'')) users"
    by (simp add: users_def hits_def)
  have b: "\<not> list_ex (hits (ByFilter (JObj [(''name'', JStr ''Z'')]))) users"
    by (simp add: users_def hits_def matches_def)
  have c: "effective_filter (Some (no_options\<lparr>fo_filter := Some (JObj [(''name'', JStr ''Z'')])\<rparr>)) =
      JObj [(''name'', JStr ''Z'')]"
    by (simp add: or_else_def)
  note t1 = missing_entity_driver_answer
    [where m = "mem_model name_given" and i = "''u9''" and u = "JObj [(''name'', JStr ''B'')]"
      and uopts = None and mopts = None and f = "JObj [(''name'', JStr ''Z'')]"
      and absent = "\<lambda>db t. \<not> list_ex (hits t) db" and w = users and fopts = None,
      THEN conjunct2, THEN conjunct2, THEN conjunct2, THEN conjunct2, THEN conjunct2,
      THEN conjunct2, THEN mp, OF h]
  note t2 = missing_entity_driver_answer
    [where m = "mem_model name_given" and i = "''u9''" and u = "JObj [(''name'', JStr ''B'')]"
      and uopts = None and mopts = None and f = "JObj [(''name'', JStr ''Z'')]"
      and absent = "\<lambda>db t. \<not> list_ex (hits t) db" and w = users
      and fopts = "Some (no_options\<lparr>fo_filter := Some (JObj [(''name'', JStr ''Z'')])\<rparr>)",
      THEN conjunct2, THEN conjunct2, THEN conjunct2, THEN conjunct2, THEN conjunct2,
      THEN conjunct2, THEN mp, OF h]
  from t1 t2 a b c
  show ?thesis by simp
qed

end
